theory Spec2Isabelle
  imports Main "HOL-Library.AList"
begin

section \<open>Python values and exceptions\<close>

text \<open>
  The analyzer handles decoded JSON throughout. A decoded value is one of Python's
  \<^verbatim>\<open>None\<close>, \<^verbatim>\<open>bool\<close>, \<^verbatim>\<open>int\<close>, \<^verbatim>\<open>float\<close>, \<^verbatim>\<open>str\<close>, \<^verbatim>\<open>list\<close> and \<^verbatim>\<open>dict\<close>. A dict
  decoded from JSON has string keys and keeps insertion order: it is an association list
  read with \<open>map_of\<close> and written with \<open>AList.update\<close>. The program never computes with
  a float, it only prints it with \<^verbatim>\<open>str\<close>; a float is carried as the decimal text that
  \<^verbatim>\<open>repr\<close> prints for it. Strings are lists of 8-bit characters, so the model covers the
  ASCII texts that the remote services exchange.
\<close>

datatype pyval =
    PNone
  | PBool bool
  | PInt int
  | PFloat string
  | PStr string
  | PList "pyval list"
  | PDict "(string \<times> pyval) list"

text \<open>
  Exceptions are values. \<open>IndexError\<close> and \<open>KeyError\<close> are the two subclasses of
  Python's \<^verbatim>\<open>LookupError\<close>. \<open>OtherError\<close> stands for whatever a library call raises
  (a transport failure of \<^verbatim>\<open>requests\<close>, of \<^verbatim>\<open>chessdotcom\<close>, of \<^verbatim>\<open>websockets\<close>).
\<close>

datatype error =
    KeyError pyval
  | IndexError
  | TypeError
  | AttributeError
  | JSONDecodeError
  | ConnectionClosed
  | OtherError string

definition and_then :: "error + 'a \<Rightarrow> ('a \<Rightarrow> error + 'b) \<Rightarrow> error + 'b" where
  "and_then r f = (case r of Inl e \<Rightarrow> Inl e | Inr x \<Rightarrow> f x)"

text \<open>Subscription \<^verbatim>\<open>xs[i]\<close> on a Python sequence: a negative index counts from the end.\<close>

definition list_getitem :: "'a list \<Rightarrow> int \<Rightarrow> error + 'a" where
  "list_getitem xs i =
     (if 0 \<le> i \<and> i < int (length xs) then Inr (xs ! nat i)
      else if i < 0 \<and> - int (length xs) \<le> i then Inr (xs ! nat (int (length xs) + i))
      else Inl IndexError)"

text \<open>\<^verbatim>\<open>v[k]\<close> for a string key \<open>k\<close>.\<close>

fun getitem_str :: "pyval \<Rightarrow> string \<Rightarrow> error + pyval" where
  "getitem_str (PDict kvs) k =
     (case map_of kvs k of None \<Rightarrow> Inl (KeyError (PStr k)) | Some v \<Rightarrow> Inr v)"
| "getitem_str v k = Inl TypeError"

text \<open>\<^verbatim>\<open>v[i]\<close> for an integer \<open>i\<close>. A dict decoded from JSON has no integer key.\<close>

fun getitem_int :: "pyval \<Rightarrow> int \<Rightarrow> error + pyval" where
  "getitem_int (PList xs) i = list_getitem xs i"
| "getitem_int (PStr s) i = and_then (list_getitem s i) (\<lambda>c. Inr (PStr [c]))"
| "getitem_int (PDict kvs) i = Inl (KeyError (PInt i))"
| "getitem_int v i = Inl TypeError"

text \<open>A chain of string subscriptions, \<^verbatim>\<open>v[k1][k2]...\<close>, evaluated left to right.\<close>

fun getpath :: "pyval \<Rightarrow> string list \<Rightarrow> error + pyval" where
  "getpath v [] = Inr v"
| "getpath v (k # ks) = and_then (getitem_str v k) (\<lambda>w. getpath w ks)"

text \<open>A \<^verbatim>\<open>for\<close> loop over a list that updates a local value and stops at the first exception.\<close>

fun for_each :: "'a list \<Rightarrow> ('a \<Rightarrow> 's \<Rightarrow> error + 's) \<Rightarrow> 's \<Rightarrow> error + 's" where
  "for_each [] body s = Inr s"
| "for_each (x # xs) body s =
     (case body x s of Inl e \<Rightarrow> Inl e | Inr s' \<Rightarrow> for_each xs body s')"

text \<open>\<^verbatim>\<open>s.split(sep)\<close> for a separator of one character: never an empty list.\<close>

fun py_split :: "char \<Rightarrow> string \<Rightarrow> string list" where
  "py_split sep [] = [[]]"
| "py_split sep (c # cs) =
     (if c = sep then [] # py_split sep cs
      else (case py_split sep cs of [] \<Rightarrow> [[c]] | seg # segs \<Rightarrow> (c # seg) # segs))"

text \<open>Iterating a value, as \<^verbatim>\<open>enumerate\<close> does: a list yields its items, a dict its keys, a
  string its characters; nothing else is iterable.\<close>

fun py_iter :: "pyval \<Rightarrow> error + pyval list" where
  "py_iter (PList xs) = Inr xs"
| "py_iter (PDict kvs) = Inr (map (\<lambda>kv. PStr (fst kv)) kvs)"
| "py_iter (PStr s) = Inr (map (\<lambda>c. PStr [c]) s)"
| "py_iter v = Inl TypeError"

fun is_substring :: "string \<Rightarrow> string \<Rightarrow> bool" where
  "is_substring u [] = (u = [])"
| "is_substring u (c # cs) = (take (length u) (c # cs) = u \<or> is_substring u cs)"

text \<open>\<^verbatim>\<open>u in v\<close> for a string \<open>u\<close>: a substring test on a string, membership in a list,
  a key test on a dict, a \<^verbatim>\<open>TypeError\<close> on anything else.\<close>

fun contains_str :: "pyval \<Rightarrow> string \<Rightarrow> error + bool" where
  "contains_str (PStr s) u = Inr (is_substring u s)"
| "contains_str (PList xs) u = Inr (PStr u \<in> set xs)"
| "contains_str (PDict kvs) u = Inr (u \<in> set (map fst kvs))"
| "contains_str v u = Inl TypeError"

definition is_digit :: "char \<Rightarrow> bool" where
  "is_digit c = (c \<in> set ''0123456789'')"

text \<open>\<^verbatim>\<open>re.search("[0-9].*", s)\<close> followed by \<^verbatim>\<open>.group(0)\<close>: the match starts at the first
  digit of \<open>s\<close> and runs to the end of the line, since \<^verbatim>\<open>.\<close> matches every character but
  the line feed. Without a digit there is no match.\<close>

fun re_search_digit_rest :: "string \<Rightarrow> string option" where
  "re_search_digit_rest [] = None"
| "re_search_digit_rest (c # cs) =
     (if is_digit c then Some (c # takeWhile (\<lambda>x. x \<noteq> CHR 0x0A) cs)
      else re_search_digit_rest cs)"

section \<open>The environment\<close>

text \<open>
  The library functions the analyzer calls are parameters of the model. Those that decode,
  encode and print are pure: \<^verbatim>\<open>json.loads\<close>, \<^verbatim>\<open>json.dumps\<close> and \<^verbatim>\<open>repr\<close> on lists and dicts.
\<close>

record pylib =
  json_loads :: "string \<Rightarrow> error + pyval"
  json_dumps :: "pyval \<Rightarrow> string"
  repr_container :: "pyval \<Rightarrow> string"

text \<open>
  The builtin \<^verbatim>\<open>str\<close>: a string is printed as itself, an integer in decimal, a float as its
  \<^verbatim>\<open>repr\<close>, a list or a dict by \<^verbatim>\<open>repr\<close>.
\<close>

fun str_nat :: "nat \<Rightarrow> string" where
  "str_nat n =
     (if n < 10 then [''0123456789'' ! n]
      else str_nat (n div 10) @ [''0123456789'' ! (n mod 10)])"

definition py_str :: "pylib \<Rightarrow> pyval \<Rightarrow> string" where
  "py_str lib v =
     (case v of
        PNone \<Rightarrow> ''None''
      | PBool b \<Rightarrow> (if b then ''True'' else ''False'')
      | PInt i \<Rightarrow> (if i < 0 then CHR ''-'' # str_nat (nat (- i)) else str_nat (nat i))
      | PFloat r \<Rightarrow> r
      | PStr s \<Rightarrow> s
      | PList xs \<Rightarrow> repr_container lib v
      | PDict kvs \<Rightarrow> repr_container lib v)"

text \<open>
  Every other library call is an effect on the world outside the process. The state of a
  run is the list of the effects performed so far, oldest first; the world answers each
  call as a function of that history and of the call's arguments, so that the same request
  made later may be answered differently.
\<close>

datatype event =
    Ev_now
  | Ev_random nat
  | Ev_user_agent
  | Ev_get string "(string \<times> string) list"
  | Ev_post string "(string \<times> string) list" "(string \<times> string) list" pyval
  | Ev_games string string string
  | Ev_connect string
  | Ev_send string
  | Ev_recv
  | Ev_close

text \<open>An HTTP response: its cookie jar and what \<^verbatim>\<open>.json()\<close> gives.\<close>

record response =
  cookies :: "(string \<times> string) list"
  body_json :: "error + pyval"

record datetime =
  dt_year :: int
  dt_month :: int

record world =
  datetime_now :: "event list \<Rightarrow> datetime"
  random_choices :: "event list \<Rightarrow> nat \<Rightarrow> string"
  user_agent_random :: "event list \<Rightarrow> string"
  requests_get :: "event list \<Rightarrow> string \<Rightarrow> (string \<times> string) list \<Rightarrow> error + response"
  requests_post :: "event list \<Rightarrow> string \<Rightarrow> (string \<times> string) list \<Rightarrow>
                      (string \<times> string) list \<Rightarrow> pyval \<Rightarrow> error + response"
  get_player_games_by_month :: "event list \<Rightarrow> string \<Rightarrow> string \<Rightarrow> string \<Rightarrow> error + pyval"
  websockets_connect :: "event list \<Rightarrow> string \<Rightarrow> error option"
  websocket_send :: "event list \<Rightarrow> string \<Rightarrow> error option"
  websocket_recv :: "event list \<Rightarrow> error + string"

text \<open>A computation that performs effects: it takes the history and returns its result, a
  value or the exception raised, with the history extended.\<close>

type_synonym 'a io = "event list \<Rightarrow> (error + 'a) \<times> event list"

definition io_lift :: "error + 'a \<Rightarrow> 'a io" where
  "io_lift r h = (r, h)"

definition io_bind :: "'a io \<Rightarrow> ('a \<Rightarrow> 'b io) \<Rightarrow> 'b io" where
  "io_bind m f h = (case m h of (Inl e, h') \<Rightarrow> (Inl e, h') | (Inr x, h') \<Rightarrow> f x h')"

definition call_random_choices :: "world \<Rightarrow> nat \<Rightarrow> string io" where
  "call_random_choices w k h = (Inr (random_choices w h k), h @ [Ev_random k])"

definition call_user_agent_random :: "world \<Rightarrow> string io" where
  "call_user_agent_random w h = (Inr (user_agent_random w h), h @ [Ev_user_agent])"

definition call_requests_get :: "world \<Rightarrow> string \<Rightarrow> (string \<times> string) list \<Rightarrow> response io" where
  "call_requests_get w url cs h = (requests_get w h url cs, h @ [Ev_get url cs])"

definition call_requests_post ::
  "world \<Rightarrow> string \<Rightarrow> (string \<times> string) list \<Rightarrow> (string \<times> string) list \<Rightarrow> pyval \<Rightarrow> response io" where
  "call_requests_post w url cs hs j h = (requests_post w h url cs hs j, h @ [Ev_post url cs hs j])"

definition call_get_player_games_by_month ::
  "world \<Rightarrow> string \<Rightarrow> string \<Rightarrow> string \<Rightarrow> pyval io" where
  "call_get_player_games_by_month w username year month h =
     (get_player_games_by_month w h username year month, h @ [Ev_games username year month])"

text \<open>\<^verbatim>\<open>jar[name]\<close> on a cookie jar.\<close>

definition cookie_getitem :: "(string \<times> string) list \<Rightarrow> string \<Rightarrow> error + string" where
  "cookie_getitem jar name =
     (case map_of jar name of None \<Rightarrow> Inl (KeyError (PStr name)) | Some v \<Rightarrow> Inr v)"

section \<open>The analyzer\<close>

definition CHESSKID_URL :: string where
  "CHESSKID_URL = ''https://www.chesskid.com''"

definition ANALYSIS_WS_URL :: string where
  "ANALYSIS_WS_URL = ''wss://analysis-va.chess.com/''"

definition ENGINE_TYPE :: string where
  "ENGINE_TYPE = ''stockfish16 nnue''"

definition TALLIES_LIST :: "string list" where
  "TALLIES_LIST = [''brilliant'', ''greatFind'', ''best'', ''excellent'', ''good'', ''book'',
     ''inaccuracy'', ''mistake'', ''miss'', ''blunder'']"

subsection \<open>The class body\<close>

text \<open>
  Python evaluates the default values of a function's parameters once, when the \<^verbatim>\<open>def\<close>
  statement runs: here when the class body runs, at import. The class object keeps them.
  Each of the four defaults calls \<^verbatim>\<open>datetime.datetime.now()\<close> on its own. The constructor
  \<^verbatim>\<open>__init__\<close> only sets the User-Agent header of the \<^verbatim>\<open>chessdotcom\<close> client and gives the
  instance no attribute: the methods below take the class object alone.
\<close>

record ChessAnalyzer =
  get_game_number_defaults :: "string \<times> string"
  analyze_game_defaults :: "string \<times> string"

definition class_body :: "pylib \<Rightarrow> world \<Rightarrow> event list \<Rightarrow> ChessAnalyzer \<times> event list" where
  "class_body lib w h =
     (let y1 = py_str lib (PInt (dt_year (datetime_now w h)));
          m1 = py_str lib (PInt (dt_month (datetime_now w (h @ [Ev_now]))));
          y2 = py_str lib (PInt (dt_year (datetime_now w (h @ [Ev_now, Ev_now]))));
          m2 = py_str lib (PInt (dt_month (datetime_now w (h @ [Ev_now, Ev_now, Ev_now]))))
      in (\<lparr>get_game_number_defaults = (y1, m1), analyze_game_defaults = (y2, m2)\<rparr>,
          h @ [Ev_now, Ev_now, Ev_now, Ev_now]))"

subsection \<open>\<^verbatim>\<open>__fetch_token\<close> and \<^verbatim>\<open>__generate_account\<close>\<close>

definition fetch_token :: "world \<Rightarrow> string \<Rightarrow> pyval io" where
  "fetch_token w PHPSESSID =
     io_bind (call_requests_get w (CHESSKID_URL @ ''/callback/auth/service/analysis'')
                [(''PHPSESSID'', PHPSESSID)]) (\<lambda>r.
     io_lift (and_then (body_json r) (\<lambda>b. getitem_str b ''token'')))"

definition generate_account :: "world \<Rightarrow> pyval io" where
  "generate_account w =
     io_bind (call_random_choices w 15) (\<lambda>user.
     io_bind (call_random_choices w 20) (\<lambda>passwd.
     io_bind (call_requests_get w (CHESSKID_URL @ ''/register/user-type'') []) (\<lambda>r0.
     io_bind (io_lift (cookie_getitem (cookies r0) ''PHPSESSID'')) (\<lambda>PHPSESSID.
     io_bind (call_user_agent_random w) (\<lambda>agent.
     io_bind (call_requests_post w (CHESSKID_URL @ ''/callback/register/account'')
                [(''PHPSESSID'', PHPSESSID)] [(''User-Agent'', agent)]
                (PDict [(''avatarFilename'', PStr ''kid-1459.png''),
                        (''username'', PStr user),
                        (''userType'', PStr ''kid''),
                        (''password'', PStr passwd),
                        (''email'', PStr (user @ ''@gmail.com''))])) (\<lambda>response.
     io_bind (io_lift (and_then (and_then (body_json response) (\<lambda>b. getpath b [''user'', ''username'']))
                (\<lambda>name. contains_str name user))) (\<lambda>echoed.
     if \<not> echoed then io_lift (Inr (PStr ''ERROR GENERATING ACCOUNT.''))
     else io_bind (io_lift (cookie_getitem (cookies response) ''PHPSESSID'')) (fetch_token w))))))))"

subsection \<open>\<^verbatim>\<open>get_game_number\<close>\<close>

text \<open>The loop over \<^verbatim>\<open>enumerate(player_games)\<close>; \<^verbatim>\<open>user_games\<close> has integer keys.\<close>

definition get_game_number_step ::
  "nat \<times> pyval \<Rightarrow> (nat \<times> pyval) list \<Rightarrow> error + (nat \<times> pyval) list" where
  "get_game_number_step p user_games =
     and_then (getpath (snd p) [''white'', ''username'']) (\<lambda>white.
     and_then (getpath (snd p) [''black'', ''username'']) (\<lambda>black.
     Inr (AList.update (fst p) (PDict [(''white'', white), (''black'', black)]) user_games)))"

definition get_game_number ::
  "ChessAnalyzer \<Rightarrow> world \<Rightarrow> string \<Rightarrow> string option \<Rightarrow> string option \<Rightarrow> (nat \<times> pyval) list io" where
  "get_game_number cls w username year month =
     io_bind (call_get_player_games_by_month w username
                (case year of None \<Rightarrow> fst (get_game_number_defaults cls) | Some y \<Rightarrow> y)
                (case month of None \<Rightarrow> snd (get_game_number_defaults cls) | Some m \<Rightarrow> m)) (\<lambda>r.
     io_lift (and_then (getitem_str r ''games'') (\<lambda>player_games.
              and_then (py_iter player_games) (\<lambda>items.
              for_each (List.enumerate 0 items) get_game_number_step []))))"

subsection \<open>\<^verbatim>\<open>analyze_game\<close>: locating the game\<close>

text \<open>
  Lines 98 to 103 of the source: the month's games are fetched, then \<^verbatim>\<open>pgn\<close>, \<^verbatim>\<open>gameID\<close>
  and \<^verbatim>\<open>usernames\<close> are read from \<^verbatim>\<open>player_games[game_number]\<close>, which is subscripted
  anew for each of them.
\<close>

definition re_search_group :: "pyval \<Rightarrow> error + string" where
  "re_search_group v =
     (case v of
        PStr s \<Rightarrow> (case re_search_digit_rest s of None \<Rightarrow> Inl AttributeError | Some g \<Rightarrow> Inr g)
      | _ \<Rightarrow> Inl TypeError)"

definition analyze_game_locate ::
  "world \<Rightarrow> string \<Rightarrow> int \<Rightarrow> string \<Rightarrow> string \<Rightarrow> (pyval \<times> string \<times> pyval) io" where
  "analyze_game_locate w username game_number year month =
     io_bind (call_get_player_games_by_month w username year month) (\<lambda>r.
     io_lift (and_then (getitem_str r ''games'') (\<lambda>player_games.
       and_then (and_then (getitem_int player_games game_number) (\<lambda>g. getitem_str g ''pgn'')) (\<lambda>pgn.
       and_then (and_then (and_then (getitem_int player_games game_number) (\<lambda>g. getitem_str g ''url''))
                   re_search_group) (\<lambda>gameID.
       and_then (for_each [''white'', ''black'']
                   (\<lambda>color usernames.
                      and_then (and_then (getitem_int player_games game_number)
                                  (\<lambda>g. getpath g [color, ''username'']))
                        (\<lambda>name. Inr (AList.update color name usernames))) []) (\<lambda>usernames.
       Inr (pgn, gameID, PDict usernames)))))))"

subsection \<open>\<^verbatim>\<open>__analyze_game_async\<close>\<close>

text \<open>The request \<^verbatim>\<open>data\<close> of lines 122 to 145.\<close>

definition analysis_request :: "pyval \<Rightarrow> string \<Rightarrow> pyval \<Rightarrow> pyval" where
  "analysis_request pgn gameID token =
     PDict [(''action'', PStr ''gameAnalysis''),
            (''game'', PDict [(''pgn'', pgn)]),
            (''options'', PDict [
               (''caps2'', PBool True),
               (''getNullMove'', PBool True),
               (''engineType'', PStr ENGINE_TYPE),
               (''source'', PDict [
                  (''gameId'', PStr gameID),
                  (''gameType'', PStr ''live''),
                  (''token'', token),
                  (''client'', PStr ''web''),
                  (''userTimeZone'', PStr ''Europe/Madrid'')]),
               (''tep'', PDict [
                  (''ceeDebug'', PBool False),
                  (''lang'', PStr ''en_US''),
                  (''speechv2'', PBool True),
                  (''userColor'', PStr ''white''),
                  (''classificationv3'', PBool True)]),
               (''strength'', PStr ''Maximum'')])]"

text \<open>
  The receive loop, \<^verbatim>\<open>while True\<close>: it has no exit but the \<^verbatim>\<open>return\<close> and an exception, so it
  is a partial function, \<open>None\<close> when it runs forever.
\<close>

partial_function (option) recv_loop ::
  "pylib \<Rightarrow> world \<Rightarrow> event list \<Rightarrow> ((error + string) \<times> event list) option" where
  "recv_loop lib w h =
     (case websocket_recv w h of
        Inl e \<Rightarrow> Some (Inl e, h @ [Ev_recv])
      | Inr game \<Rightarrow>
          (case and_then (json_loads lib game) (\<lambda>d. getitem_str d ''action'') of
             Inl e \<Rightarrow> Some (Inl e, h @ [Ev_recv])
           | Inr action \<Rightarrow>
               if action = PStr ''analyzeGame'' then Some (Inr game, h @ [Ev_recv])
               else recv_loop lib w (h @ [Ev_recv])))"

declare recv_loop.simps [code]

text \<open>
  The connection is a context manager: once \<^verbatim>\<open>connect\<close> has succeeded it is closed on every
  way out of the block.
\<close>

definition analyze_game_async ::
  "pylib \<Rightarrow> world \<Rightarrow> pyval \<Rightarrow> string \<Rightarrow> event list \<Rightarrow> ((error + string) \<times> event list) option" where
  "analyze_game_async lib w pgn gameID h =
     (case generate_account w h of
        (Inl e, h1) \<Rightarrow> Some (Inl e, h1)
      | (Inr token, h1) \<Rightarrow>
          (case websockets_connect w h1 ANALYSIS_WS_URL of
             Some e \<Rightarrow> Some (Inl e, h1 @ [Ev_connect ANALYSIS_WS_URL])
           | None \<Rightarrow>
               (case websocket_send w (h1 @ [Ev_connect ANALYSIS_WS_URL])
                       (json_dumps lib (analysis_request pgn gameID token)) of
                  Some e \<Rightarrow>
                    Some (Inl e, h1 @ [Ev_connect ANALYSIS_WS_URL,
                            Ev_send (json_dumps lib (analysis_request pgn gameID token)), Ev_close])
                | None \<Rightarrow>
                    map_option (\<lambda>p. (fst p, snd p @ [Ev_close]))
                      (recv_loop lib w (h1 @ [Ev_connect ANALYSIS_WS_URL,
                         Ev_send (json_dumps lib (analysis_request pgn gameID token))])))))"

subsection \<open>\<^verbatim>\<open>__get_tallies\<close>\<close>

text \<open>
  One pass of the loop over the two colors computes the dict stored in \<^verbatim>\<open>result[color]\<close>.
  Its last entry is the comprehension over \<^verbatim>\<open>TALLIES_LIST\<close>, which subscripts the payload
  once for each label.
\<close>

definition get_tallies_color :: "pylib \<Rightarrow> pyval \<Rightarrow> pyval \<Rightarrow> string \<Rightarrow> error + pyval" where
  "get_tallies_color lib data usernames color =
     and_then (getitem_str usernames color) (\<lambda>username.
     and_then (getpath data [''data'', ''reportCard'', color, ''effectiveElo'']) (\<lambda>effective_elo.
     and_then (getpath data [''data'', ''CAPS'', color, ''all'']) (\<lambda>caps_all.
     and_then (getpath data [''data'', ''CAPS'', color, ''gp0'']) (\<lambda>caps_gp0.
     and_then (getpath data [''data'', ''CAPS'', color, ''gp1'']) (\<lambda>caps_gp1.
     and_then (getpath data [''data'', ''CAPS'', color, ''gp2'']) (\<lambda>caps_gp2.
     and_then (for_each TALLIES_LIST
                 (\<lambda>move d. and_then (getpath data [''data'', ''tallies'', color, move])
                    (\<lambda>v. Inr (AList.update move v d))) []) (\<lambda>move_rating.
     Inr (PDict [(''username'', username),
                 (''effective_elo'', effective_elo),
                 (''accuracy'', PStr (take 4 (py_str lib caps_all))),
                 (''open_acc'', PStr (take 4 (py_str lib caps_gp0))),
                 (''midd_acc'', PStr (take 4 (py_str lib caps_gp1))),
                 (''end_acc'', PStr (take 4 (py_str lib caps_gp2))),
                 (''move_rating'', PDict move_rating)]))))))))"

definition get_tallies :: "pylib \<Rightarrow> string \<Rightarrow> pyval \<Rightarrow> error + pyval" where
  "get_tallies lib game usernames =
     and_then (json_loads lib game) (\<lambda>data.
     and_then (getpath data [''data'', ''book'', ''name'']) (\<lambda>name.
     and_then (list_getitem (py_split (CHR '','') (py_str lib name)) 0) (\<lambda>opening.
     and_then (for_each [''white'', ''black'']
                 (\<lambda>color result. and_then (get_tallies_color lib data usernames color)
                    (\<lambda>report. Inr (AList.update color report result)))
                 (AList.update ''engine'' (PStr ''StockFish 16 NNUE (Maximum)'')
                   (AList.update ''opening'' (PStr opening) []))) (\<lambda>result.
     Inr (PDict result)))))"

subsection \<open>\<^verbatim>\<open>analyze_game\<close>\<close>

definition analyze_game ::
  "ChessAnalyzer \<Rightarrow> pylib \<Rightarrow> world \<Rightarrow> string \<Rightarrow> int \<Rightarrow> string option \<Rightarrow> string option \<Rightarrow>
     event list \<Rightarrow> ((error + pyval) \<times> event list) option" where
  "analyze_game cls lib w username game_number year month h =
     (case analyze_game_locate w username game_number
             (case year of None \<Rightarrow> fst (analyze_game_defaults cls) | Some y \<Rightarrow> y)
             (case month of None \<Rightarrow> snd (analyze_game_defaults cls) | Some m \<Rightarrow> m) h of
        (Inl e, h1) \<Rightarrow> Some (Inl e, h1)
      | (Inr located, h1) \<Rightarrow>
          map_option
            (\<lambda>p. (and_then (fst p) (\<lambda>game. get_tallies lib game (snd (snd located))), snd p))
            (analyze_game_async lib w (fst located) (fst (snd located)) h1))"

section \<open>A concrete environment\<close>

text \<open>
  The theorems below hold for every library and every world. To run the model, the
  following stand in for them: a decoder given by a table from frame texts to decoded
  values, an encoder that shows the token of a request, and a world scripted by a few
  parameters. No example prints a list or a dict.
\<close>

definition example_loads :: "(string \<times> pyval) list \<Rightarrow> string \<Rightarrow> error + pyval" where
  "example_loads table s = (case map_of table s of None \<Rightarrow> Inl JSONDecodeError | Some v \<Rightarrow> Inr v)"

text \<open>The request is encoded as the text of its token between markers.\<close>

definition example_dumps :: "pyval \<Rightarrow> string" where
  "example_dumps v =
     (case getpath v [''options'', ''source'', ''token''] of
        Inr (PStr t) \<Rightarrow> ''<request token='' @ t @ ''>''
      | _ \<Rightarrow> ''<request>'')"

definition example_lib :: "(string \<times> pyval) list \<Rightarrow> pylib" where
  "example_lib table =
     \<lparr>json_loads = example_loads table, json_dumps = example_dumps,
      repr_container = (\<lambda>v. ''...'')\<rparr>"

text \<open>
  The scripted world. The clock reads December 2025 until four effects have happened and
  January 2026 from then on. The registration answers with the account name \<open>echo\<close> applied
  to the submitted one. The month has the games \<open>games\<close>. The socket delivers the frames
  \<open>frames\<close> in order, one for each receive since the request was sent, then closes.
\<close>

definition submitted_username :: "pyval \<Rightarrow> string" where
  "submitted_username j = (case getitem_str j ''username'' of Inr (PStr u) \<Rightarrow> u | _ \<Rightarrow> [])"

definition example_world :: "(string \<Rightarrow> string) \<Rightarrow> pyval list \<Rightarrow> string list \<Rightarrow> world" where
  "example_world echo games frames =
     \<lparr>datetime_now = (\<lambda>h. if length h < 4 then \<lparr>dt_year = 2025, dt_month = 12\<rparr>
                           else \<lparr>dt_year = 2026, dt_month = 1\<rparr>),
      random_choices = (\<lambda>h k. take k ''Kq3vT8mZp2LxW9bRc4Yd''),
      user_agent_random = (\<lambda>h. ''Mozilla/5.0''),
      requests_get = (\<lambda>h url cs.
         Inr \<lparr>cookies = [(''PHPSESSID'', ''anon'')],
              body_json = Inr (PDict [(''token'', PStr (''token-'' @ str_nat (length h)))])\<rparr>),
      requests_post = (\<lambda>h url cs hs j.
         Inr \<lparr>cookies = [(''PHPSESSID'', ''kid'')],
              body_json = Inr (PDict [(''user'', PDict [(''username'', PStr (echo (submitted_username j)))])])\<rparr>),
      get_player_games_by_month = (\<lambda>h username year month. Inr (PDict [(''games'', PList games)])),
      websockets_connect = (\<lambda>h url. None),
      websocket_send = (\<lambda>h msg. None),
      websocket_recv = (\<lambda>h.
         if length (takeWhile (\<lambda>e. e = Ev_recv) (rev h)) < length frames
         then Inr (frames ! length (takeWhile (\<lambda>e. e = Ev_recv) (rev h)))
         else Inl ConnectionClosed)\<rparr>"

definition example_game :: "string \<Rightarrow> string \<Rightarrow> string \<Rightarrow> pyval" where
  "example_game url white black =
     PDict [(''url'', PStr url),
            (''pgn'', PStr ''1. e4 e5 2. Nf3 Nc6 3. Bc4 Bc5''),
            (''white'', PDict [(''username'', PStr white), (''rating'', PInt 1500)]),
            (''black'', PDict [(''username'', PStr black), (''rating'', PInt 1480)])]"

definition example_games :: "pyval list" where
  "example_games =
     [example_game ''https://www.chess.com/game/live/12345678'' ''alice'' ''bob'',
      example_game ''https://www.chess.com/game/live/12345679'' ''carol'' ''alice'',
      example_game ''https://www.chess.com/game/daily/224466'' ''alice'' ''dave'']"

definition example_tallies :: "int \<Rightarrow> pyval" where
  "example_tallies n =
     PDict [(''brilliant'', PInt 0), (''greatFind'', PInt 1), (''best'', PInt n),
            (''excellent'', PInt 4), (''good'', PInt 3), (''book'', PInt 5),
            (''inaccuracy'', PInt 2), (''mistake'', PInt 1), (''miss'', PInt 0),
            (''blunder'', PInt 1)]"

definition example_payload :: "pyval \<Rightarrow> pyval" where
  "example_payload white_tallies =
     PDict [(''action'', PStr ''analyzeGame''),
            (''data'', PDict [
               (''book'', PDict [(''name'', PStr ''Italian Game, Giuoco Piano'')]),
               (''reportCard'', PDict [
                  (''white'', PDict [(''effectiveElo'', PInt 1650)]),
                  (''black'', PDict [(''effectiveElo'', PInt 1400)])]),
               (''CAPS'', PDict [
                  (''white'', PDict [(''all'', PFloat ''97.456''), (''gp0'', PInt 100),
                                    (''gp1'', PFloat ''96.98''), (''gp2'', PFloat ''9.5'')]),
                  (''black'', PDict [(''all'', PFloat ''71.25''), (''gp0'', PFloat ''88.049''),
                                    (''gp1'', PFloat ''64.3''), (''gp2'', PFloat ''70.0'')])]),
               (''tallies'', PDict [
                  (''white'', white_tallies),
                  (''black'', example_tallies 7)])])]"

definition example_usernames :: pyval where
  "example_usernames = PDict [(''white'', PStr ''alice''), (''black'', PStr ''bob'')]"

text \<open>Five progress frames, then the completed analysis.\<close>

definition example_progress :: "string list" where
  "example_progress = [''progress 1'', ''progress 2'', ''progress 3'', ''progress 4'',
     ''progress 5'']"

definition example_frames :: "string list" where
  "example_frames = example_progress @ [''analysis'']"

definition example_table :: "(string \<times> pyval) list" where
  "example_table =
     map (\<lambda>f. (f, PDict [(''action'', PStr ''progress'')])) example_progress @
     [(''analysis'', example_payload (example_tallies 12)),
      (''analysis without labels'', example_payload (PDict [(''best'', PInt 12)]))]"

text \<open>The value that \<^verbatim>\<open>__get_tallies\<close> returns for the payload above.\<close>

definition example_summary :: pyval where
  "example_summary =
     PDict [(''opening'', PStr ''Italian Game''),
            (''engine'', PStr ''StockFish 16 NNUE (Maximum)''),
            (''white'', PDict [
               (''username'', PStr ''alice''), (''effective_elo'', PInt 1650),
               (''accuracy'', PStr ''97.4''), (''open_acc'', PStr ''100''),
               (''midd_acc'', PStr ''96.9''), (''end_acc'', PStr ''9.5''),
               (''move_rating'', example_tallies 12)]),
            (''black'', PDict [
               (''username'', PStr ''bob''), (''effective_elo'', PInt 1400),
               (''accuracy'', PStr ''71.2''), (''open_acc'', PStr ''88.0''),
               (''midd_acc'', PStr ''64.3''), (''end_acc'', PStr ''70.0''),
               (''move_rating'', example_tallies 7)])]"

definition example_listing :: "(nat \<times> pyval) list" where
  "example_listing =
     [(0, PDict [(''white'', PStr ''alice''), (''black'', PStr ''bob'')]),
      (1, PDict [(''white'', PStr ''carol''), (''black'', PStr ''alice'')]),
      (2, PDict [(''white'', PStr ''alice''), (''black'', PStr ''dave'')])]"

definition example_variant_games :: "pyval list" where
  "example_variant_games =
     [example_game ''https://www.chess.com/variants/chess960/game/12345678'' ''alice'' ''bob'']"

definition example_class :: ChessAnalyzer where
  "example_class = \<lparr>get_game_number_defaults = (''2025'', ''12''),
                     analyze_game_defaults = (''2025'', ''12'')\<rparr>"

definition example_call_trace :: "string \<Rightarrow> event list" where
  "example_call_trace token =
     [Ev_random 15, Ev_random 20,
      Ev_get ''https://www.chesskid.com/register/user-type'' [],
      Ev_user_agent,
      Ev_post ''https://www.chesskid.com/callback/register/account''
        [(''PHPSESSID'', ''anon'')] [(''User-Agent'', ''Mozilla/5.0'')]
        (PDict [(''avatarFilename'', PStr ''kid-1459.png''),
                (''username'', PStr ''Kq3vT8mZp2LxW9b''),
                (''userType'', PStr ''kid''),
                (''password'', PStr ''Kq3vT8mZp2LxW9bRc4Yd''),
                (''email'', PStr ''Kq3vT8mZp2LxW9b@gmail.com'')]),
      Ev_get ''https://www.chesskid.com/callback/auth/service/analysis'' [(''PHPSESSID'', ''kid'')],
      Ev_connect ''wss://analysis-va.chess.com/'',
      Ev_send (''<request token='' @ token @ ''>''),
      Ev_recv, Ev_recv, Ev_recv, Ev_recv, Ev_recv, Ev_recv, Ev_close]"

section \<open>Closed forms\<close>

text \<open>
  What one pass of the color loop stores when none of its subscriptions raises; \<open>projr\<close>
  reads the value of a subscription that succeeded.
\<close>

definition color_report :: "pylib \<Rightarrow> pyval \<Rightarrow> pyval \<Rightarrow> string \<Rightarrow> pyval" where
  "color_report lib data usernames color =
     PDict [(''username'', projr (getitem_str usernames color)),
            (''effective_elo'', projr (getpath data [''data'', ''reportCard'', color, ''effectiveElo''])),
            (''accuracy'', PStr (take 4 (py_str lib (projr (getpath data [''data'', ''CAPS'', color, ''all'']))))),
            (''open_acc'', PStr (take 4 (py_str lib (projr (getpath data [''data'', ''CAPS'', color, ''gp0'']))))),
            (''midd_acc'', PStr (take 4 (py_str lib (projr (getpath data [''data'', ''CAPS'', color, ''gp1'']))))),
            (''end_acc'', PStr (take 4 (py_str lib (projr (getpath data [''data'', ''CAPS'', color, ''gp2'']))))),
            (''move_rating'', PDict (map (\<lambda>move. (move, projr (getpath data [''data'', ''tallies'', color, move]))) TALLIES_LIST))]"

definition game_entry :: "pyval \<Rightarrow> error + pyval" where
  "game_entry g =
     and_then (getpath g [''white'', ''username'']) (\<lambda>white.
     and_then (getpath g [''black'', ''username'']) (\<lambda>black.
     Inr (PDict [(''white'', white), (''black'', black)])))"

text \<open>The messages sent on the socket in a stretch of history, in order.\<close>

fun sent :: "event list \<Rightarrow> string list" where
  "sent [] = []"
| "sent (Ev_send msg # es) = msg # sent es"
| "sent (e # es) = sent es"

section \<open>Properties\<close>

lemma and_then_Inr_iff:
  "and_then r f = Inr y \<longleftrightarrow> (\<exists>x. r = Inr x \<and> f x = Inr y)"
  by (cases r) (simp_all add: and_then_def)

lemma update_fresh: "k \<notin> fst ` set al \<Longrightarrow> AList.update k v al = al @ [(k, v)]"
  by (induction al) auto

lemma for_each_update_key:
  "distinct (map key xs) \<Longrightarrow> key ` set xs \<inter> fst ` set d0 = {} \<Longrightarrow>
   for_each xs (\<lambda>x d. and_then (f x) (\<lambda>v. Inr (AList.update (key x) v d))) d0 = Inr d \<longleftrightarrow>
   (list_all (\<lambda>x. \<not> isl (f x)) xs \<and> d = d0 @ map (\<lambda>x. (key x, projr (f x))) xs)"
proof (induction xs arbitrary: d0)
  case Nil
  then show ?case by auto
next
  case (Cons x xs)
  show ?case
  proof (cases "f x")
    case (Inl e)
    then show ?thesis by (simp add: and_then_def)
  next
    case (Inr v)
    from Cons.prems have fresh: "key x \<notin> fst ` set d0" by auto
    have disj: "key ` set xs \<inter> fst ` set (d0 @ [(key x, v)]) = {}"
      using Cons.prems by auto
    from Cons.prems have "distinct (map key xs)" by simp
    from Cons.IH [OF this disj] show ?thesis
      using Inr by (simp add: and_then_def update_fresh [OF fresh])
  qed
qed

lemma for_each_update:
  "distinct ks \<Longrightarrow> set ks \<inter> fst ` set d0 = {} \<Longrightarrow>
   for_each ks (\<lambda>k d. and_then (f k) (\<lambda>v. Inr (AList.update k v d))) d0 = Inr d \<longleftrightarrow>
   (list_all (\<lambda>k. \<not> isl (f k)) ks \<and> d = d0 @ map (\<lambda>k. (k, projr (f k))) ks)"
  using for_each_update_key [where key = "\<lambda>k. k" and xs = ks and f = f and d = d, of d0]
  by simp

lemma distinct_TALLIES_LIST: "distinct TALLIES_LIST"
  by (simp add: TALLIES_LIST_def)

lemma py_split_nonempty: "py_split sep s \<noteq> []"
  by (induction s) (auto split: list.splits)

lemma hd_py_split: "hd (py_split sep s) = takeWhile (\<lambda>c. c \<noteq> sep) s"
  by (induction s) (auto split: list.splits simp: py_split_nonempty)

lemma list_getitem_0: "xs \<noteq> [] \<Longrightarrow> list_getitem xs 0 = Inr (hd xs)"
  by (cases xs) (simp_all add: list_getitem_def)

lemma get_tallies_color_Inr:
  assumes "get_tallies_color lib data usernames color = Inr report"
  shows "report = color_report lib data usernames color"
    and "\<not> isl (getpath data [''data'', ''CAPS'', color, ''all''])"
    and "\<not> isl (getpath data [''data'', ''CAPS'', color, ''gp0''])"
    and "\<not> isl (getpath data [''data'', ''CAPS'', color, ''gp1''])"
    and "\<not> isl (getpath data [''data'', ''CAPS'', color, ''gp2''])"
    and "list_all (\<lambda>move. \<not> isl (getpath data [''data'', ''tallies'', color, move])) TALLIES_LIST"
  using assms
  unfolding get_tallies_color_def color_report_def and_then_Inr_iff
  by (auto simp: for_each_update [OF distinct_TALLIES_LIST])

lemma get_tallies_Inr:
  assumes "get_tallies lib game usernames = Inr result"
  shows "\<exists>data name. json_loads lib game = Inr data \<and>
           getpath data [''data'', ''book'', ''name''] = Inr name \<and>
           get_tallies_color lib data usernames ''white'' = Inr (color_report lib data usernames ''white'') \<and>
           get_tallies_color lib data usernames ''black'' = Inr (color_report lib data usernames ''black'') \<and>
           result = PDict [(''opening'', PStr (takeWhile (\<lambda>c. c \<noteq> CHR '','') (py_str lib name))),
                           (''engine'', PStr ''StockFish 16 NNUE (Maximum)''),
                           (''white'', color_report lib data usernames ''white''),
                           (''black'', color_report lib data usernames ''black'')]"
proof -
  from assms obtain data name opn res where
    d: "json_loads lib game = Inr data" and
    n: "getpath data [''data'', ''book'', ''name''] = Inr name" and
    o: "list_getitem (py_split (CHR '','') (py_str lib name)) 0 = Inr opn" and
    l: "for_each [''white'', ''black'']
          (\<lambda>color result. and_then (get_tallies_color lib data usernames color)
             (\<lambda>report. Inr (AList.update color report result)))
          [(''opening'', PStr opn), (''engine'', PStr ''StockFish 16 NNUE (Maximum)'')] = Inr res" and
    r: "result = PDict res"
    unfolding get_tallies_def and_then_Inr_iff by auto
  from o have op: "opn = takeWhile (\<lambda>c. c \<noteq> CHR '','') (py_str lib name)"
    by (simp add: list_getitem_0 py_split_nonempty hd_py_split)
  from l have w: "\<not> isl (get_tallies_color lib data usernames ''white'')"
    and b: "\<not> isl (get_tallies_color lib data usernames ''black'')"
    and res: "res = [(''opening'', PStr opn), (''engine'', PStr ''StockFish 16 NNUE (Maximum)''),
                     (''white'', projr (get_tallies_color lib data usernames ''white'')),
                     (''black'', projr (get_tallies_color lib data usernames ''black''))]"
    by (simp_all add: for_each_update del: for_each.simps)
  from w obtain rw where rw: "get_tallies_color lib data usernames ''white'' = Inr rw"
    by (cases "get_tallies_color lib data usernames ''white''") auto
  from b obtain rb where rb: "get_tallies_color lib data usernames ''black'' = Inr rb"
    by (cases "get_tallies_color lib data usernames ''black''") auto
  show ?thesis
    using d n op r res rw rb get_tallies_color_Inr(1) [OF rw] get_tallies_color_Inr(1) [OF rb]
    by simp
qed


lemma example_get_tallies:
  "get_tallies (example_lib example_table) ''analysis'' example_usernames = Inr example_summary"
  by code_simp

lemma example_loads_analysis:
  "json_loads (example_lib example_table) ''analysis'' = Inr (example_payload (example_tallies 12))"
  by code_simp

lemma getpath_color_report:
  "color = ''white'' \<or> color = ''black'' \<Longrightarrow>
   getpath (PDict [(''opening'', o1), (''engine'', e1),
                   (''white'', color_report lib data usernames ''white''),
                   (''black'', color_report lib data usernames ''black'')]) (color # ks) =
   getpath (color_report lib data usernames color) ks"
  by (auto simp: and_then_def)

subsection \<open>The result aggregator\<close>

text \<open>
  Claim C3. For a payload that \<^verbatim>\<open>__get_tallies\<close> accepts, the \<^verbatim>\<open>move_rating\<close> of each color has
  exactly the labels of \<open>TALLIES_LIST\<close>, in that order, each with the value the payload
  gives it. When a label cannot be read from the payload of a color (the tallies of that
  color lack it), \<^verbatim>\<open>__get_tallies\<close> raises: it neither leaves the label out nor fills in a
  default. The exception is Python's own (a \<^verbatim>\<open>KeyError\<close> for a missing key), which is what
  the specification calls a malformed response.
\<close>

theorem get_tallies_labels_total:
  assumes "json_loads lib game = Inr data" and "color = ''white'' \<or> color = ''black''"
  shows "(\<forall>result. get_tallies lib game usernames = Inr result \<longrightarrow>
            (\<exists>ratings. getpath result [color, ''move_rating''] = Inr (PDict ratings) \<and>
               map fst ratings = TALLIES_LIST \<and>
               list_all (\<lambda>r. getpath data [''data'', ''tallies'', color, fst r] = Inr (snd r)) ratings)) \<and>
         (\<forall>move. move \<in> set TALLIES_LIST \<longrightarrow>
            isl (getpath data [''data'', ''tallies'', color, move]) \<longrightarrow>
            isl (get_tallies lib game usernames))"
proof -
  have success: "\<exists>ratings. getpath result [color, ''move_rating''] = Inr (PDict ratings) \<and>
               map fst ratings = TALLIES_LIST \<and>
               list_all (\<lambda>r. getpath data [''data'', ''tallies'', color, fst r] = Inr (snd r)) ratings"
    and present: "list_all (\<lambda>move. \<not> isl (getpath data [''data'', ''tallies'', color, move])) TALLIES_LIST"
    if run: "get_tallies lib game usernames = Inr result" for result
  proof -
    from get_tallies_Inr [OF run] assms(1) have
      c: "get_tallies_color lib data usernames ''white'' = Inr (color_report lib data usernames ''white'')"
         "get_tallies_color lib data usernames ''black'' = Inr (color_report lib data usernames ''black'')"
      and r: "\<exists>o1 e1. result = PDict [(''opening'', o1), (''engine'', e1),
                           (''white'', color_report lib data usernames ''white''),
                           (''black'', color_report lib data usernames ''black'')]"
      by auto
    from c assms(2) show present: "list_all (\<lambda>move. \<not> isl (getpath data [''data'', ''tallies'', color, move])) TALLIES_LIST"
      using get_tallies_color_Inr(6) by blast
    let ?ratings = "map (\<lambda>move. (move, projr (getpath data [''data'', ''tallies'', color, move]))) TALLIES_LIST"
    from r assms(2) have "getpath result [color, ''move_rating''] = Inr (PDict ?ratings)"
      by (auto simp: getpath_color_report) (simp_all add: color_report_def and_then_def)
    moreover have "map fst ?ratings = TALLIES_LIST"
      by (simp add: comp_def)
    moreover from present have "list_all (\<lambda>r. getpath data [''data'', ''tallies'', color, fst r] = Inr (snd r)) ?ratings"
      by (simp add: list_all_iff)
    ultimately show "\<exists>ratings. getpath result [color, ''move_rating''] = Inr (PDict ratings) \<and>
               map fst ratings = TALLIES_LIST \<and>
               list_all (\<lambda>r. getpath data [''data'', ''tallies'', color, fst r] = Inr (snd r)) ratings"
      by blast
  qed
  have "isl (get_tallies lib game usernames)"
    if "move \<in> set TALLIES_LIST" and "isl (getpath data [''data'', ''tallies'', color, move])" for move
  proof (cases "get_tallies lib game usernames")
    case (Inl e)
    then show ?thesis by simp
  next
    case (Inr result)
    from present [OF Inr] that show ?thesis by (simp add: list_all_iff)
  qed
  with success show ?thesis by blast
qed

theorem get_tallies_labels_total_witness:
  "get_tallies (example_lib example_table) ''analysis'' example_usernames = Inr example_summary \<and>
   getpath example_summary [''white'', ''move_rating''] = Inr (example_tallies 12) \<and>
   (\<exists>ratings. getpath example_summary [''white'', ''move_rating''] = Inr (PDict ratings) \<and>
      map fst ratings = TALLIES_LIST \<and>
      list_all (\<lambda>r. getpath (example_payload (example_tallies 12))
                        [''data'', ''tallies'', ''white'', fst r] = Inr (snd r)) ratings) \<and>
   ''miss'' \<in> set TALLIES_LIST \<and>
   json_loads (example_lib example_table) ''analysis without labels'' =
     Inr (example_payload (PDict [(''best'', PInt 12)])) \<and>
   getpath (example_payload (PDict [(''best'', PInt 12)])) [''data'', ''tallies'', ''white'', ''miss''] =
     Inl (KeyError (PStr ''miss'')) \<and>
   isl (get_tallies (example_lib example_table) ''analysis without labels'' example_usernames)"
proof -
  have load2: "json_loads (example_lib example_table) ''analysis without labels'' =
     Inr (example_payload (PDict [(''best'', PInt 12)]))"
    by code_simp
  have miss: "''miss'' \<in> set TALLIES_LIST"
    by (simp add: TALLIES_LIST_def)
  have absent: "getpath (example_payload (PDict [(''best'', PInt 12)])) [''data'', ''tallies'', ''white'', ''miss''] =
     Inl (KeyError (PStr ''miss''))"
    by code_simp
  have stored: "getpath example_summary [''white'', ''move_rating''] = Inr (example_tallies 12)"
    by code_simp
  from get_tallies_labels_total [OF example_loads_analysis, of "''white''" example_usernames]
    get_tallies_labels_total [OF load2, of "''white''" example_usernames]
  show ?thesis
    using example_get_tallies load2 miss absent stored by simp
qed

lemma getpath_color_report_field:
  "getpath (color_report lib data usernames color) [''accuracy''] =
     Inr (PStr (take 4 (py_str lib (projr (getpath data [''data'', ''CAPS'', color, ''all''])))))"
  "getpath (color_report lib data usernames color) [''open_acc''] =
     Inr (PStr (take 4 (py_str lib (projr (getpath data [''data'', ''CAPS'', color, ''gp0''])))))"
  "getpath (color_report lib data usernames color) [''midd_acc''] =
     Inr (PStr (take 4 (py_str lib (projr (getpath data [''data'', ''CAPS'', color, ''gp1''])))))"
  "getpath (color_report lib data usernames color) [''end_acc''] =
     Inr (PStr (take 4 (py_str lib (projr (getpath data [''data'', ''CAPS'', color, ''gp2''])))))"
  "getpath (color_report lib data usernames color) [''move_rating''] =
     Inr (PDict (map (\<lambda>move. (move, projr (getpath data [''data'', ''tallies'', color, move])))
            TALLIES_LIST))"
  by (simp_all add: color_report_def and_then_def)

lemma get_tallies_reports:
  assumes "get_tallies lib game usernames = Inr result"
    and "json_loads lib game = Inr data"
    and "color = ''white'' \<or> color = ''black''"
  shows "get_tallies_color lib data usernames color = Inr (color_report lib data usernames color)"
    and "getpath result (color # ks) = getpath (color_report lib data usernames color) ks"
proof -
  from get_tallies_Inr [OF assms(1)] assms(2) obtain o1 e1 where
    c: "get_tallies_color lib data usernames ''white'' = Inr (color_report lib data usernames ''white'')"
       "get_tallies_color lib data usernames ''black'' = Inr (color_report lib data usernames ''black'')"
    and r: "result = PDict [(''opening'', o1), (''engine'', e1),
                           (''white'', color_report lib data usernames ''white''),
                           (''black'', color_report lib data usernames ''black'')]"
    by auto
  from c assms(3) show
    "get_tallies_color lib data usernames color = Inr (color_report lib data usernames color)"
    by auto
  show "getpath result (color # ks) = getpath (color_report lib data usernames color) ks"
    unfolding r using assms(3) by (rule getpath_color_report)
qed


text \<open>
  Claim C4. Each accuracy figure of the summary (overall, opening, middlegame, endgame, for
  each color) is the first four characters of what \<^verbatim>\<open>str\<close> prints for the payload's value:
  it is cut, not rounded, so that 97.456 gives \<open>97.4\<close> and 96.98 gives \<open>96.9\<close>.
\<close>

theorem get_tallies_accuracy_truncated:
  assumes "get_tallies lib game usernames = Inr result"
    and "json_loads lib game = Inr data"
    and "color = ''white'' \<or> color = ''black''"
    and "(field, phase) \<in> set [(''accuracy'', ''all''), (''open_acc'', ''gp0''),
           (''midd_acc'', ''gp1''), (''end_acc'', ''gp2'')]"
  shows "\<exists>v. getpath data [''data'', ''CAPS'', color, phase] = Inr v \<and>
           getpath result [color, field] = Inr (PStr (take 4 (py_str lib v)))"
proof -
  note ok = get_tallies_reports(1) [OF assms(1-3)]
  note res = get_tallies_reports(2) [OF assms(1-3)]
  note read = get_tallies_color_Inr(2-5) [OF ok]
  from assms(4) consider
      "field = ''accuracy''" "phase = ''all''"
    | "field = ''open_acc''" "phase = ''gp0''"
    | "field = ''midd_acc''" "phase = ''gp1''"
    | "field = ''end_acc''" "phase = ''gp2''"
    by auto
  then show ?thesis
  proof cases
    case 1
    with read(1) res [of "[''accuracy'']"] show ?thesis
      by (simp only: getpath_color_report_field) (metis sum.collapse(2))
  next
    case 2
    with read(2) res [of "[''open_acc'']"] show ?thesis
      by (simp only: getpath_color_report_field) (metis sum.collapse(2))
  next
    case 3
    with read(3) res [of "[''midd_acc'']"] show ?thesis
      by (simp only: getpath_color_report_field) (metis sum.collapse(2))
  next
    case 4
    with read(4) res [of "[''end_acc'']"] show ?thesis
      by (simp only: getpath_color_report_field) (metis sum.collapse(2))
  qed
qed


theorem get_tallies_accuracy_truncated_witness:
  "get_tallies (example_lib example_table) ''analysis'' example_usernames = Inr example_summary \<and>
   getpath (example_payload (example_tallies 12)) [''data'', ''CAPS'', ''white'', ''all''] =
     Inr (PFloat ''97.456'') \<and>
   getpath example_summary [''white'', ''accuracy''] = Inr (PStr ''97.4'') \<and>
   getpath (example_payload (example_tallies 12)) [''data'', ''CAPS'', ''white'', ''gp1''] =
     Inr (PFloat ''96.98'') \<and>
   getpath example_summary [''white'', ''midd_acc''] = Inr (PStr ''96.9'')"
proof -
  have m: "(''accuracy'', ''all'') \<in> set [(''accuracy'', ''all''), (''open_acc'', ''gp0''),
           (''midd_acc'', ''gp1''), (''end_acc'', ''gp2'')]"
    "(''midd_acc'', ''gp1'') \<in> set [(''accuracy'', ''all''), (''open_acc'', ''gp0''),
           (''midd_acc'', ''gp1''), (''end_acc'', ''gp2'')]"
    by simp_all
  have w: "''white'' = ''white'' \<or> ''white'' = ''black''"
    by simp
  have v: "getpath (example_payload (example_tallies 12)) [''data'', ''CAPS'', ''white'', ''all''] =
     Inr (PFloat ''97.456'')"
    "getpath (example_payload (example_tallies 12)) [''data'', ''CAPS'', ''white'', ''gp1''] =
     Inr (PFloat ''96.98'')"
    by code_simp+
  have t: "take 4 (py_str (example_lib example_table) (PFloat ''97.456'')) = ''97.4''"
    "take 4 (py_str (example_lib example_table) (PFloat ''96.98'')) = ''96.9''"
    by (simp_all add: py_str_def)
  from get_tallies_accuracy_truncated [OF example_get_tallies example_loads_analysis w m(1)]
  have a: "getpath example_summary [''white'', ''accuracy''] = Inr (PStr ''97.4'')"
    unfolding v(1) by (simp only: t sum.inject simp_thms ex_simps)
  from get_tallies_accuracy_truncated [OF example_get_tallies example_loads_analysis w m(2)]
  have b: "getpath example_summary [''white'', ''midd_acc''] = Inr (PStr ''96.9'')"
    unfolding v(2) by (simp only: t sum.inject simp_thms ex_simps)
  from example_get_tallies v a b show ?thesis by (intro conjI)
qed

text \<open>
  Claim C8. The opening of the summary is the first comma-delimited segment of the payload's
  book-opening name: the name printed by \<^verbatim>\<open>str\<close> (a string is printed as itself) is the
  opening followed by a rest, the opening has no comma, and the rest is empty or starts
  with a comma.
\<close>

theorem get_tallies_opening_first_segment:
  assumes "get_tallies lib game usernames = Inr result"
    and "json_loads lib game = Inr data"
    and "getpath data [''data'', ''book'', ''name''] = Inr name"
  shows "\<exists>opn rest. getitem_str result ''opening'' = Inr (PStr opn) \<and>
           py_str lib name = opn @ rest \<and> CHR '','' \<notin> set opn \<and>
           (rest = [] \<or> hd rest = CHR '','')"
proof -
  from get_tallies_Inr [OF assms(1)] assms(2,3) have
    r: "getitem_str result ''opening'' =
          Inr (PStr (takeWhile (\<lambda>c. c \<noteq> CHR '','') (py_str lib name)))"
    by auto
  let ?s = "py_str lib name"
  have "?s = takeWhile (\<lambda>c. c \<noteq> CHR '','') ?s @ dropWhile (\<lambda>c. c \<noteq> CHR '','') ?s"
    by simp
  moreover have "CHR '','' \<notin> set (takeWhile (\<lambda>c. c \<noteq> CHR '','') ?s)"
    by (auto dest: set_takeWhileD)
  moreover have "dropWhile (\<lambda>c. c \<noteq> CHR '','') ?s = [] \<or>
                 hd (dropWhile (\<lambda>c. c \<noteq> CHR '','') ?s) = CHR '',''"
    using hd_dropWhile [of "\<lambda>c. c \<noteq> CHR '',''" ?s] by auto
  ultimately show ?thesis using r by blast
qed

theorem get_tallies_opening_first_segment_witness:
  "get_tallies (example_lib example_table) ''analysis'' example_usernames = Inr example_summary \<and>
   getpath (example_payload (example_tallies 12)) [''data'', ''book'', ''name''] =
     Inr (PStr ''Italian Game, Giuoco Piano'') \<and>
   getitem_str example_summary ''opening'' = Inr (PStr ''Italian Game'') \<and>
   ''Italian Game, Giuoco Piano'' = ''Italian Game'' @ '', Giuoco Piano'' \<and>
   CHR '','' \<notin> set ''Italian Game''"
proof -
  have n: "getpath (example_payload (example_tallies 12)) [''data'', ''book'', ''name''] =
     Inr (PStr ''Italian Game, Giuoco Piano'')"
    by code_simp
  have o: "getitem_str example_summary ''opening'' = Inr (PStr ''Italian Game'')"
    by code_simp
  have s: "py_str (example_lib example_table) (PStr ''Italian Game, Giuoco Piano'') =
     ''Italian Game, Giuoco Piano''"
    by (simp add: py_str_def)
  from get_tallies_opening_first_segment [OF example_get_tallies example_loads_analysis n]
  obtain opn rest where
    "getitem_str example_summary ''opening'' = Inr (PStr opn)"
    "''Italian Game, Giuoco Piano'' = opn @ rest"
    "CHR '','' \<notin> set opn"
    unfolding s by blast
  with o have "''Italian Game, Giuoco Piano'' = ''Italian Game'' @ rest"
    and c: "CHR '','' \<notin> set ''Italian Game''"
    by simp_all
  then have "''Italian Game, Giuoco Piano'' = ''Italian Game'' @ '', Giuoco Piano''"
    by simp
  with example_get_tallies n o c show ?thesis by (intro conjI)
qed

subsection \<open>The receive loop\<close>

lemma recv_loop_discard:
  assumes "websocket_recv w h = Inr g"
    and "and_then (json_loads lib g) (\<lambda>d. getitem_str d ''action'') = Inr a"
    and "a \<noteq> PStr ''analyzeGame''"
  shows "recv_loop lib w h = recv_loop lib w (h @ [Ev_recv])"
  using assms by (subst recv_loop.simps) simp

lemma recv_loop_return:
  assumes "websocket_recv w h = Inr game"
    and "and_then (json_loads lib game) (\<lambda>d. getitem_str d ''action'') = Inr (PStr ''analyzeGame'')"
  shows "recv_loop lib w h = Some (Inr game, h @ [Ev_recv])"
  using assms by (subst recv_loop.simps) simp

text \<open>
  Claim C1. Whatever number \<open>n\<close> of messages come first whose action tag is not
  \<open>analyzeGame\<close>, the receive loop reads them one at a time, drops them and returns the
  first message whose tag is \<open>analyzeGame\<close>, after \<open>n + 1\<close> receives: the loop does return.
\<close>

theorem recv_loop_first_completion:
  assumes "\<forall>i<n. \<exists>g a. websocket_recv w (h @ replicate i Ev_recv) = Inr g \<and>
             and_then (json_loads lib g) (\<lambda>d. getitem_str d ''action'') = Inr a \<and>
             a \<noteq> PStr ''analyzeGame''"
    and "websocket_recv w (h @ replicate n Ev_recv) = Inr game"
    and "and_then (json_loads lib game) (\<lambda>d. getitem_str d ''action'') = Inr (PStr ''analyzeGame'')"
  shows "recv_loop lib w h = Some (Inr game, h @ replicate (Suc n) Ev_recv)"
  using assms
proof (induction n arbitrary: h)
  case 0
  then show ?case by (simp add: recv_loop_return)
next
  case (Suc n)
  from Suc.prems(1) obtain g a where
    first: "websocket_recv w h = Inr g"
      "and_then (json_loads lib g) (\<lambda>d. getitem_str d ''action'') = Inr a"
      "a \<noteq> PStr ''analyzeGame''"
    by force
  have shift: "(h @ [Ev_recv]) @ replicate i Ev_recv = h @ replicate (Suc i) Ev_recv" for i
    by simp
  have later: "\<forall>i<n. \<exists>g a. websocket_recv w ((h @ [Ev_recv]) @ replicate i Ev_recv) = Inr g \<and>
             and_then (json_loads lib g) (\<lambda>d. getitem_str d ''action'') = Inr a \<and>
             a \<noteq> PStr ''analyzeGame''"
    unfolding shift using Suc.prems(1) by auto
  have last: "websocket_recv w ((h @ [Ev_recv]) @ replicate n Ev_recv) = Inr game"
    unfolding shift using Suc.prems(2) .
  from Suc.IH [OF later last Suc.prems(3)] recv_loop_discard [OF first]
  show ?case unfolding shift by simp
qed

lemma example_world_recv:
  "websocket_recv (example_world echo games frames) (replicate i Ev_recv) =
     (if i < length frames then Inr (frames ! i) else Inl ConnectionClosed)"
  by (simp add: example_world_def)

lemma example_progress_action:
  "list_all (\<lambda>f. and_then (json_loads (example_lib example_table) f)
                   (\<lambda>d. getitem_str d ''action'') = Inr (PStr ''progress'')) example_progress"
  by code_simp

theorem recv_loop_first_completion_witness:
  "recv_loop (example_lib example_table) (example_world id example_games example_frames) [] =
     Some (Inr ''analysis'', replicate 6 Ev_recv)"
proof -
  have len: "length example_progress = 5"
    by (simp add: example_progress_def)
  have discarded: "\<forall>i<5. \<exists>g a.
      websocket_recv (example_world id example_games example_frames) ([] @ replicate i Ev_recv) = Inr g \<and>
      and_then (json_loads (example_lib example_table) g) (\<lambda>d. getitem_str d ''action'') = Inr a \<and>
      a \<noteq> PStr ''analyzeGame''"
  proof (intro allI impI)
    fix i :: nat
    assume i: "i < 5"
    then have "websocket_recv (example_world id example_games example_frames) ([] @ replicate i Ev_recv) =
        Inr (example_progress ! i)"
      by (simp add: example_world_recv example_frames_def len nth_append)
    moreover from i example_progress_action have
      "and_then (json_loads (example_lib example_table) (example_progress ! i))
         (\<lambda>d. getitem_str d ''action'') = Inr (PStr ''progress'')"
      by (simp add: list_all_length len)
    ultimately show "\<exists>g a.
      websocket_recv (example_world id example_games example_frames) ([] @ replicate i Ev_recv) = Inr g \<and>
      and_then (json_loads (example_lib example_table) g) (\<lambda>d. getitem_str d ''action'') = Inr a \<and>
      a \<noteq> PStr ''analyzeGame''"
      by auto
  qed
  have completed: "websocket_recv (example_world id example_games example_frames)
      ([] @ replicate 5 Ev_recv) = Inr ''analysis''"
    by (simp add: example_world_recv example_frames_def len nth_append)
  have tagged: "and_then (json_loads (example_lib example_table) ''analysis'')
      (\<lambda>d. getitem_str d ''action'') = Inr (PStr ''analyzeGame'')"
    by code_simp
  from recv_loop_first_completion [OF discarded completed tagged]
  show ?thesis by (simp add: numeral_eq_Suc)
qed

subsection \<open>The game locator\<close>

lemma get_game_number_step_entry:
  "get_game_number_step p user_games =
     and_then (game_entry (snd p)) (\<lambda>v. Inr (AList.update (fst p) v user_games))"
  unfolding get_game_number_step_def game_entry_def and_then_def
  by (simp split: sum.splits)

lemma get_game_number_loop:
  "for_each (List.enumerate 0 gs) get_game_number_step [] = Inr user_games \<longleftrightarrow>
     (list_all (\<lambda>g. \<not> isl (game_entry g)) gs \<and>
      user_games = map (\<lambda>p. (fst p, projr (game_entry (snd p)))) (List.enumerate 0 gs))"
proof -
  have step: "get_game_number_step =
      (\<lambda>p d. and_then (game_entry (snd p)) (\<lambda>v. Inr (AList.update (fst p) v d)))"
    by (intro ext) (rule get_game_number_step_entry)
  have d: "distinct (map fst (List.enumerate 0 gs))"
    by simp
  have all: "list_all (\<lambda>p. \<not> isl (game_entry (snd p))) (List.enumerate 0 gs) =
      list_all (\<lambda>g. \<not> isl (game_entry g)) gs"
  proof -
    have "list_all (\<lambda>p. \<not> isl (game_entry (snd p))) (List.enumerate 0 gs) =
        list_all ((\<lambda>g. \<not> isl (game_entry g)) \<circ> snd) (List.enumerate 0 gs)"
      by (simp add: comp_def)
    also have "\<dots> = list_all (\<lambda>g. \<not> isl (game_entry g)) (map snd (List.enumerate 0 gs))"
      by (simp only: list.pred_map)
    finally show ?thesis by simp
  qed
  show ?thesis
    unfolding step
    by (subst for_each_update_key [where key = fst, OF d]) (simp_all add: all)
qed


lemma game_entry_Inr:
  "\<not> isl (game_entry g) \<longleftrightarrow>
     \<not> isl (getpath g [''white'', ''username'']) \<and> \<not> isl (getpath g [''black'', ''username''])"
  "\<not> isl (game_entry g) \<Longrightarrow>
     projr (game_entry g) = PDict [(''white'', projr (getpath g [''white'', ''username''])),
                                   (''black'', projr (getpath g [''black'', ''username'']))]"
  unfolding game_entry_def
  by (cases "getpath g [''white'', ''username'']"; cases "getpath g [''black'', ''username'']";
      simp add: and_then_def)+

text \<open>
  Claim C7. When the upstream answer lists the games \<open>games\<close>, \<^verbatim>\<open>get_game_number\<close> returns a
  dict whose keys are exactly \<open>0, \<dots>, N - 1\<close> for \<open>N\<close> the number of games, in the upstream
  order, the entry of index \<open>i\<close> holding the white and the black user names of the
  \<open>i\<close>-th game. It does return one as soon as every game carries both names.
\<close>

theorem get_game_number_indices:
  assumes "get_player_games_by_month w h username
             (case year of None \<Rightarrow> fst (get_game_number_defaults cls) | Some y \<Rightarrow> y)
             (case month of None \<Rightarrow> snd (get_game_number_defaults cls) | Some m \<Rightarrow> m) = Inr r"
    and "getitem_str r ''games'' = Inr (PList games)"
  shows "(list_all (\<lambda>g. \<not> isl (getpath g [''white'', ''username'']) \<and>
                        \<not> isl (getpath g [''black'', ''username''])) games \<longrightarrow>
            \<not> isl (fst (get_game_number cls w username year month h))) \<and>
         (\<forall>user_games. fst (get_game_number cls w username year month h) = Inr user_games \<longrightarrow>
            map fst user_games = [0..<length games] \<and>
            (\<forall>i<length games. \<exists>white black.
               getpath (games ! i) [''white'', ''username''] = Inr white \<and>
               getpath (games ! i) [''black'', ''username''] = Inr black \<and>
               map_of user_games i = Some (PDict [(''white'', white), (''black'', black)])))"
proof -
  have run: "fst (get_game_number cls w username year month h) =
      for_each (List.enumerate 0 games) get_game_number_step []"
    using assms
    by (simp add: get_game_number_def io_bind_def io_lift_def call_get_player_games_by_month_def
        and_then_def)
  have returns: "\<not> isl (fst (get_game_number cls w username year month h))"
    if "list_all (\<lambda>g. \<not> isl (getpath g [''white'', ''username'']) \<and>
                        \<not> isl (getpath g [''black'', ''username''])) games"
  proof -
    from that have "list_all (\<lambda>g. \<not> isl (game_entry g)) games"
      by (simp add: game_entry_Inr(1))
    then have "for_each (List.enumerate 0 games) get_game_number_step [] =
        Inr (map (\<lambda>p. (fst p, projr (game_entry (snd p)))) (List.enumerate 0 games))"
      by (simp add: get_game_number_loop)
    with run show ?thesis by simp
  qed
  have indexed: "map fst user_games = [0..<length games] \<and>
            (\<forall>i<length games. \<exists>white black.
               getpath (games ! i) [''white'', ''username''] = Inr white \<and>
               getpath (games ! i) [''black'', ''username''] = Inr black \<and>
               map_of user_games i = Some (PDict [(''white'', white), (''black'', black)]))"
    if "fst (get_game_number cls w username year month h) = Inr user_games" for user_games
  proof -
    from that run have
      ok: "list_all (\<lambda>g. \<not> isl (game_entry g)) games" and
      ug: "user_games = map (\<lambda>p. (fst p, projr (game_entry (snd p)))) (List.enumerate 0 games)"
      by (simp_all add: get_game_number_loop)
    have keys: "map fst user_games = [0..<length games]"
      unfolding ug by (simp add: comp_def)
    have entry: "\<exists>white black.
               getpath (games ! i) [''white'', ''username''] = Inr white \<and>
               getpath (games ! i) [''black'', ''username''] = Inr black \<and>
               map_of user_games i = Some (PDict [(''white'', white), (''black'', black)])"
      if i: "i < length games" for i
    proof -
      from ok i have e: "\<not> isl (game_entry (games ! i))"
        by (simp add: list_all_length)
      from i have "user_games ! i = (i, projr (game_entry (games ! i)))"
        unfolding ug by (simp add: nth_enumerate_eq)
      moreover from i have "i < length user_games"
        unfolding ug by simp
      ultimately have "(i, projr (game_entry (games ! i))) \<in> set user_games"
        by (metis nth_mem)
      moreover have "distinct (map fst user_games)"
        unfolding keys by simp
      ultimately have "map_of user_games i = Some (projr (game_entry (games ! i)))"
        by (rule map_of_is_SomeI [rotated])
      with e show ?thesis
        by (simp add: game_entry_Inr)
    qed
    with keys show ?thesis by blast
  qed
  from returns indexed show ?thesis by blast
qed

theorem get_game_number_indices_witness:
  "fst (get_game_number \<lparr>get_game_number_defaults = (''2025'', ''12''),
                          analyze_game_defaults = (''2025'', ''12'')\<rparr>
          (example_world id example_games example_frames) ''alice'' (Some ''2026'') (Some ''1'') []) =
     Inr example_listing \<and>
   map fst example_listing = [0..<length example_games] \<and>
   (\<exists>white black.
      getpath (example_games ! 1) [''white'', ''username''] = Inr white \<and>
      getpath (example_games ! 1) [''black'', ''username''] = Inr black \<and>
      map_of example_listing 1 = Some (PDict [(''white'', white), (''black'', black)]))"
proof -
  let ?cls = "\<lparr>get_game_number_defaults = (''2025'', ''12''),
               analyze_game_defaults = (''2025'', ''12'')\<rparr>"
  let ?w = "example_world id example_games example_frames"
  have fetch: "get_player_games_by_month ?w [] ''alice''
             (case Some ''2026'' of None \<Rightarrow> fst (get_game_number_defaults ?cls) | Some y \<Rightarrow> y)
             (case Some ''1'' of None \<Rightarrow> snd (get_game_number_defaults ?cls) | Some m \<Rightarrow> m) =
           Inr (PDict [(''games'', PList example_games)])"
    by (simp add: example_world_def)
  have games: "getitem_str (PDict [(''games'', PList example_games)]) ''games'' =
      Inr (PList example_games)"
    by simp
  have named: "list_all (\<lambda>g. \<not> isl (getpath g [''white'', ''username'']) \<and>
                        \<not> isl (getpath g [''black'', ''username''])) example_games"
    by code_simp
  have len: "(1::nat) < length example_games"
    by (simp add: example_games_def)
  note inst = get_game_number_indices [OF fetch games]
  from inst named have "\<not> isl (fst (get_game_number ?cls ?w ''alice'' (Some ''2026'') (Some ''1'') []))"
    by blast
  have run: "fst (get_game_number ?cls ?w ''alice'' (Some ''2026'') (Some ''1'') []) = Inr example_listing"
    by code_simp
  with inst len show ?thesis by blast
qed

lemma analyze_game_locate_fetched:
  assumes "get_player_games_by_month w h username year month = Inr r"
    and "getitem_str r ''games'' = Inr player_games"
  shows "analyze_game_locate w username game_number year month h =
     (and_then (and_then (getitem_int player_games game_number) (\<lambda>g. getitem_str g ''pgn'')) (\<lambda>pgn.
      and_then (and_then (and_then (getitem_int player_games game_number) (\<lambda>g. getitem_str g ''url''))
                  re_search_group) (\<lambda>gameID.
      and_then (for_each [''white'', ''black'']
                  (\<lambda>color usernames.
                     and_then (and_then (getitem_int player_games game_number)
                                 (\<lambda>g. getpath g [color, ''username'']))
                       (\<lambda>name. Inr (AList.update color name usernames))) []) (\<lambda>usernames.
      Inr (pgn, gameID, PDict usernames)))),
      h @ [Ev_games username year month])"
  using assms
  by (simp add: analyze_game_locate_def io_bind_def io_lift_def
      call_get_player_games_by_month_def and_then_def)

lemma list_getitem_out_of_range:
  "int (length xs) \<le> i \<or> i < - int (length xs) \<Longrightarrow> list_getitem xs i = Inl IndexError"
  by (auto simp: list_getitem_def)

lemma list_getitem_negative:
  "- int (length xs) \<le> i \<Longrightarrow> i < 0 \<Longrightarrow> list_getitem xs i = list_getitem xs (int (length xs) + i)"
  by (auto simp: list_getitem_def)

lemma re_search_digit_rest_eq:
  "re_search_digit_rest s =
     (if list_all (\<lambda>c. \<not> is_digit c) s then None
      else Some (takeWhile (\<lambda>c. c \<noteq> CHR 0x0A) (dropWhile (\<lambda>c. \<not> is_digit c) s)))"
proof (induction s)
  case Nil
  then show ?case by simp
next
  case (Cons c cs)
  have "c \<noteq> CHR 0x0A" if "is_digit c"
    using that by (auto simp: is_digit_def)
  with Cons show ?case by simp
qed

lemma digits_no_newline: "list_all is_digit s \<Longrightarrow> takeWhile (\<lambda>c. c \<noteq> CHR 0x0A) s = s"
  by (induction s) (auto simp: is_digit_def)

lemma re_search_digit_rest_trailing:
  assumes "list_all (\<lambda>c. \<not> is_digit c) pre" and "seg \<noteq> []" and "list_all is_digit seg"
  shows "re_search_digit_rest (pre @ seg) = Some seg"
proof -
  from assms(2,3) have hd: "is_digit (hd seg)"
    by (cases seg) simp_all
  with assms(1,2) have "dropWhile (\<lambda>c. \<not> is_digit c) (pre @ seg) = seg"
    by (simp add: dropWhile_append3 dropWhile_append list_all_iff)
       (cases seg; simp)
  moreover from assms(2) hd have "\<not> list_all (\<lambda>c. \<not> is_digit c) (pre @ seg)"
    by (cases seg) simp_all
  ultimately show ?thesis
    using assms(3) by (simp add: re_search_digit_rest_eq digits_no_newline del: list_all_append)
qed


lemma and_then_simps:
  "and_then (Inr x) f = f x"
  "and_then (Inl e) f = Inl e"
  by (simp_all add: and_then_def)

lemma analyze_game_locate_at:
  assumes "get_player_games_by_month w h username year month = Inr r"
    and "getitem_str r ''games'' = Inr (PList games)"
    and "list_getitem games game_number = Inr g"
  shows "fst (analyze_game_locate w username game_number year month h) =
     and_then (getitem_str g ''pgn'') (\<lambda>pgn.
     and_then (and_then (getitem_str g ''url'') re_search_group) (\<lambda>gameID.
     and_then (for_each [''white'', ''black'']
                 (\<lambda>color usernames.
                    and_then (getpath g [color, ''username''])
                      (\<lambda>name. Inr (AList.update color name usernames))) []) (\<lambda>usernames.
     Inr (pgn, gameID, PDict usernames))))"
  unfolding analyze_game_locate_fetched [OF assms(1,2)]
  by (simp only: fst_conv getitem_int.simps assms(3) and_then_simps)

text \<open>
  The identifier of a located game is the text of the record's URL from its first digit
  to the end of the line. When the URL has no digit before its last segment and that
  segment is a non-empty run of digits, as in a URL ending in \<^verbatim>\<open>/live/12345678\<close>, the lookup
  returns that segment.
\<close>

lemma analyze_game_locate_gameID:
  assumes "get_player_games_by_month w h username year month = Inr r"
    and "getitem_str r ''games'' = Inr (PList games)"
    and "list_getitem games game_number = Inr g"
    and "getitem_str g ''url'' = Inr (PStr url)"
  shows "(\<forall>pgn gameID usernames.
            fst (analyze_game_locate w username game_number year month h) = Inr (pgn, gameID, usernames) \<longrightarrow>
            gameID = takeWhile (\<lambda>c. c \<noteq> CHR 0x0A) (dropWhile (\<lambda>c. \<not> is_digit c) url) \<and>
            gameID \<noteq> [] \<and> is_digit (hd gameID)) \<and>
         (\<forall>pre seg. url = pre @ seg \<longrightarrow> list_all (\<lambda>c. \<not> is_digit c) pre \<longrightarrow>
            seg \<noteq> [] \<longrightarrow> list_all is_digit seg \<longrightarrow>
            \<not> isl (getitem_str g ''pgn'') \<longrightarrow>
            \<not> isl (getpath g [''white'', ''username'']) \<longrightarrow>
            \<not> isl (getpath g [''black'', ''username'']) \<longrightarrow>
            (\<exists>pgn usernames.
               fst (analyze_game_locate w username game_number year month h) = Inr (pgn, seg, usernames)))"
proof -
  note at = analyze_game_locate_at [OF assms(1-3)]
  have first: "gameID = takeWhile (\<lambda>c. c \<noteq> CHR 0x0A) (dropWhile (\<lambda>c. \<not> is_digit c) url) \<and>
            gameID \<noteq> [] \<and> is_digit (hd gameID)"
    if "fst (analyze_game_locate w username game_number year month h) = Inr (pgn, gameID, usernames)"
    for pgn gameID usernames
  proof -
    from that have "re_search_group (PStr url) = Inr gameID"
      unfolding at assms(4) and_then_simps by (auto simp: and_then_Inr_iff)
    then have found: "re_search_digit_rest url = Some gameID"
      by (simp add: re_search_group_def split: option.splits)
    then have some: "\<not> list_all (\<lambda>c. \<not> is_digit c) url"
      and eq: "gameID = takeWhile (\<lambda>c. c \<noteq> CHR 0x0A) (dropWhile (\<lambda>c. \<not> is_digit c) url)"
      by (simp_all add: re_search_digit_rest_eq split: if_splits)
    from some obtain d ds where dw: "dropWhile (\<lambda>c. \<not> is_digit c) url = d # ds"
      by (cases "dropWhile (\<lambda>c. \<not> is_digit c) url") (auto simp: list_all_iff dropWhile_eq_Nil_conv)
    then have d: "is_digit d"
      using hd_dropWhile [of "\<lambda>c. \<not> is_digit c" url] by simp
    then have "d \<noteq> CHR 0x0A"
      by (auto simp: is_digit_def)
    with eq dw d show ?thesis by simp
  qed
  have second: "\<exists>pgn usernames.
      fst (analyze_game_locate w username game_number year month h) = Inr (pgn, seg, usernames)"
    if "url = pre @ seg" "list_all (\<lambda>c. \<not> is_digit c) pre" "seg \<noteq> []" "list_all is_digit seg"
      "\<not> isl (getitem_str g ''pgn'')"
      "\<not> isl (getpath g [''white'', ''username''])" "\<not> isl (getpath g [''black'', ''username''])"
    for pre seg
  proof -
    from that(1-4) have "re_search_group (PStr url) = Inr seg"
      by (simp add: re_search_group_def re_search_digit_rest_trailing)
    moreover from that(5) obtain pgn where "getitem_str g ''pgn'' = Inr pgn"
      by (cases "getitem_str g ''pgn''") auto
    moreover from that(6,7) have "for_each [''white'', ''black'']
                 (\<lambda>color usernames.
                    and_then (getpath g [color, ''username''])
                      (\<lambda>name. Inr (AList.update color name usernames))) [] =
        Inr ([] @ map (\<lambda>color. (color, projr (getpath g [color, ''username'']))) [''white'', ''black''])"
      by (subst for_each_update) simp_all
    ultimately show ?thesis
      unfolding at assms(4) by (simp only: and_then_simps) blast
  qed
  from first second show ?thesis by blast
qed


lemma analyze_game_locate_gameID_canonical:
  "(\<exists>pgn usernames.
      fst (analyze_game_locate (example_world id example_games example_frames)
             ''alice'' 0 ''2025'' ''12'' []) = Inr (pgn, ''12345678'', usernames)) \<and>
   ''https://www.chess.com/game/live/12345678'' = ''https://www.chess.com/game/live/'' @ ''12345678'' \<and>
   list_all is_digit ''12345678''"
proof -
  let ?w = "example_world id example_games example_frames"
  let ?g = "example_game ''https://www.chess.com/game/live/12345678'' ''alice'' ''bob''"
  have fetch: "get_player_games_by_month ?w [] ''alice'' ''2025'' ''12'' =
      Inr (PDict [(''games'', PList example_games)])"
    by (simp add: example_world_def)
  have games: "getitem_str (PDict [(''games'', PList example_games)]) ''games'' =
      Inr (PList example_games)"
    by simp
  have g: "list_getitem example_games 0 = Inr ?g"
    by (simp add: list_getitem_def example_games_def)
  have url: "getitem_str ?g ''url'' = Inr (PStr ''https://www.chess.com/game/live/12345678'')"
    by (simp add: example_game_def)
  have split: "''https://www.chess.com/game/live/12345678'' =
      ''https://www.chess.com/game/live/'' @ ''12345678''"
    by simp
  have pre: "list_all (\<lambda>c. \<not> is_digit c) ''https://www.chess.com/game/live/''"
    by (simp add: is_digit_def)
  have seg: "''12345678'' \<noteq> []" "list_all is_digit ''12345678''"
    by (simp_all add: is_digit_def)
  have rec: "\<not> isl (getitem_str ?g ''pgn'')" "\<not> isl (getpath ?g [''white'', ''username''])"
    "\<not> isl (getpath ?g [''black'', ''username''])"
    by (simp_all add: example_game_def and_then_simps)
  from analyze_game_locate_gameID [OF fetch games g url] split pre seg rec
  have "\<exists>pgn usernames.
      fst (analyze_game_locate ?w ''alice'' 0 ''2025'' ''12'' []) = Inr (pgn, ''12345678'', usernames)"
    by blast
  with split seg(2) show ?thesis by (intro conjI)
qed

text \<open>
  Claim C5 asks that the identifier consist only of digits and be the trailing path
  segment of the record's URL. The pattern \<^verbatim>\<open>[0-9].*\<close> starts at the first digit of the URL,
  wherever it stands, and runs to the end of the line: for a record whose URL has a digit
  before its last segment, the identifier handed to the analysis is neither numeric nor
  that segment.
\<close>

theorem analyze_game_locate_gameID_not_numeric:
  "fst (analyze_game_locate (example_world id example_variant_games example_frames)
          ''alice'' 0 ''2025'' ''12'' []) =
     Inr (PStr ''1. e4 e5 2. Nf3 Nc6 3. Bc4 Bc5'', ''960/game/12345678'',
          PDict [(''white'', PStr ''alice''), (''black'', PStr ''bob'')]) \<and>
   \<not> list_all is_digit ''960/game/12345678'' \<and>
   ''960/game/12345678'' \<noteq> ''12345678''"
  by code_simp

lemma analyze_game_located_failure:
  "analyze_game_locate w username game_number
     (case year of None \<Rightarrow> fst (analyze_game_defaults cls) | Some y \<Rightarrow> y)
     (case month of None \<Rightarrow> snd (analyze_game_defaults cls) | Some m \<Rightarrow> m) h = (Inl e, h1) \<Longrightarrow>
   analyze_game cls lib w username game_number year month h = Some (Inl e, h1)"
  by (simp add: analyze_game_def)

theorem analyze_game_index_out_of_range_counterexample:
  "\<not> (0 \<le> (- 1 :: int) \<and> (- 1 :: int) < int (length example_games)) \<and>
   analyze_game_locate (example_world id example_games example_frames)
     ''alice'' (- 1) ''2025'' ''12'' [] =
     (Inr (PStr ''1. e4 e5 2. Nf3 Nc6 3. Bc4 Bc5'', ''224466'',
           PDict [(''white'', PStr ''alice''), (''black'', PStr ''dave'')]),
      [Ev_games ''alice'' ''2025'' ''12''])"
  by code_simp

subsection \<open>The request of \<^verbatim>\<open>get_game_number\<close>\<close>

lemma get_game_number_trace:
  "snd (get_game_number cls w username year month h) =
     h @ [Ev_games username
            (case year of None \<Rightarrow> fst (get_game_number_defaults cls) | Some y \<Rightarrow> y)
            (case month of None \<Rightarrow> snd (get_game_number_defaults cls) | Some m \<Rightarrow> m)]"
  by (simp add: get_game_number_def io_bind_def io_lift_def call_get_player_games_by_month_def
      split: sum.splits)

subsection \<open>The credential\<close>





text \<open>
  Claim C2 asks that \<^verbatim>\<open>__generate_account\<close> raise when the registration does not echo the
  submitted user name. Here the service registers the account under the first twelve
  characters of the submitted name: \<^verbatim>\<open>__generate_account\<close> returns normally, with the text
  \<^verbatim>\<open>ERROR GENERATING ACCOUNT.\<close> where its caller expects the token, and never asks for a token.
\<close>

theorem generate_account_returns_sentinel:
  "generate_account (example_world (take 12) example_games example_frames) [] =
     (Inr (PStr ''ERROR GENERATING ACCOUNT.''),
      [Ev_random 15, Ev_random 20,
       Ev_get ''https://www.chesskid.com/register/user-type'' [],
       Ev_user_agent,
       Ev_post ''https://www.chesskid.com/callback/register/account''
         [(''PHPSESSID'', ''anon'')] [(''User-Agent'', ''Mozilla/5.0'')]
         (PDict [(''avatarFilename'', PStr ''kid-1459.png''),
                 (''username'', PStr ''Kq3vT8mZp2LxW9b''),
                 (''userType'', PStr ''kid''),
                 (''password'', PStr ''Kq3vT8mZp2LxW9bRc4Yd''),
                 (''email'', PStr ''Kq3vT8mZp2LxW9b@gmail.com'')])])"
  by code_simp

lemma sent_append: "sent (es @ fs) = sent es @ sent fs"
  by (induction es rule: sent.induct) simp_all


lemma recv_loop_trace:
  assumes "recv_loop lib w h = Some y"
  shows "\<exists>k. snd y = h @ replicate (Suc k) Ev_recv"
proof (rule recv_loop.raw_induct
    [where P = "\<lambda>lib w h y. \<exists>k. snd y = h @ replicate (Suc k) Ev_recv", OF _ assms])
  fix loop :: "pylib \<Rightarrow> world \<Rightarrow> event list \<Rightarrow> ((error + string) \<times> event list) option"
  fix lib w h y
  assume IH: "\<And>lib w h y. loop lib w h = Some y \<Longrightarrow> \<exists>k. snd y = h @ replicate (Suc k) Ev_recv"
  assume body: "(case websocket_recv w h of
        Inl e \<Rightarrow> Some (Inl e, h @ [Ev_recv])
      | Inr game \<Rightarrow>
          (case and_then (json_loads lib game) (\<lambda>d. getitem_str d ''action'') of
             Inl e \<Rightarrow> Some (Inl e, h @ [Ev_recv])
           | Inr action \<Rightarrow>
               if action = PStr ''analyzeGame'' then Some (Inr game, h @ [Ev_recv])
               else loop lib w (h @ [Ev_recv]))) = Some y"
  have one: "snd y = h @ [Ev_recv] \<Longrightarrow> \<exists>k. snd y = h @ replicate (Suc k) Ev_recv"
    by (rule exI [of _ 0]) simp
  show "\<exists>k. snd y = h @ replicate (Suc k) Ev_recv"
  proof (cases "websocket_recv w h")
    case (Inl e)
    with body show ?thesis by (intro one) auto
  next
    case game: (Inr game)
    show ?thesis
    proof (cases "and_then (json_loads lib game) (\<lambda>d. getitem_str d ''action'')")
      case (Inl e)
      with game body show ?thesis by (intro one) auto
    next
      case (Inr action)
      show ?thesis
      proof (cases "action = PStr ''analyzeGame''")
        case True
        with game Inr body show ?thesis by (intro one) auto
      next
        case False
        with game Inr body have "loop lib w (h @ [Ev_recv]) = Some y" by simp
        from IH [OF this] obtain k where "snd y = (h @ [Ev_recv]) @ replicate (Suc k) Ev_recv"
          by blast
        then have "snd y = h @ replicate (Suc (Suc k)) Ev_recv" by simp
        then show ?thesis by blast
      qed
    qed
  qed
qed

lemma generate_account_trace:
  "take (length h) (snd (generate_account w h)) = h"
  "length h < length (snd (generate_account w h))"
  "sent (drop (length h) (snd (generate_account w h))) = []"
  unfolding generate_account_def fetch_token_def io_bind_def io_lift_def
    call_random_choices_def call_user_agent_random_def call_requests_get_def call_requests_post_def
  by (simp_all split: sum.splits prod.splits)


lemma sent_drop_append:
  "length h \<le> length h1 \<Longrightarrow> sent (drop (length h) (h1 @ es)) = sent (drop (length h) h1) @ sent es"
  by (simp add: sent_append)

lemma analyze_game_async_cases:
  assumes "analyze_game_async lib w pgn gameID h = Some (res, h')"
    and "generate_account w h = (r, h1)"
  shows "(\<exists>e. r = Inl e \<and> res = Inl e \<and> h' = h1) \<or>
         (\<exists>token. r = Inr token \<and>
            (h' = h1 @ [Ev_connect ANALYSIS_WS_URL] \<or>
             (\<exists>k. h' = h1 @ [Ev_connect ANALYSIS_WS_URL,
                             Ev_send (json_dumps lib (analysis_request pgn gameID token))] @
                        replicate k Ev_recv @ [Ev_close])))"
proof (cases r)
  case (Inl e)
  with assms show ?thesis by (simp add: analyze_game_async_def)
next
  case (Inr token)
  let ?msg = "json_dumps lib (analysis_request pgn gameID token)"
  show ?thesis
  proof (cases "websockets_connect w h1 ANALYSIS_WS_URL")
    case (Some e)
    with assms Inr show ?thesis by (simp add: analyze_game_async_def)
  next
    case None
    show ?thesis
    proof (cases "websocket_send w (h1 @ [Ev_connect ANALYSIS_WS_URL]) ?msg")
      case (Some e)
      with assms Inr None have "h' = h1 @ [Ev_connect ANALYSIS_WS_URL, Ev_send ?msg] @
          replicate 0 Ev_recv @ [Ev_close]"
        by (simp add: analyze_game_async_def)
      with Inr show ?thesis by blast
    next
      case sent_ok: None
      with assms Inr None obtain y where
        y: "recv_loop lib w (h1 @ [Ev_connect ANALYSIS_WS_URL, Ev_send ?msg]) = Some y"
        and h': "h' = snd y @ [Ev_close]"
        by (auto simp: analyze_game_async_def)
      from recv_loop_trace [OF y] obtain k where
        "snd y = (h1 @ [Ev_connect ANALYSIS_WS_URL, Ev_send ?msg]) @ replicate (Suc k) Ev_recv"
        by blast
      with h' have "h' = h1 @ [Ev_connect ANALYSIS_WS_URL, Ev_send ?msg] @
          replicate (Suc k) Ev_recv @ [Ev_close]"
        by simp
      with Inr show ?thesis by blast
    qed
  qed
qed




subsection \<open>Default year and month\<close>

lemma analyze_game_async_extends:
  assumes "analyze_game_async lib w pgn gameID h = Some (res, h')"
  shows "take (length h) h' = h"
proof -
  obtain r h1 where g: "generate_account w h = (r, h1)"
    by (cases "generate_account w h")
  from generate_account_trace(1,2) [of h w] have "take (length h) h1 = h" "length h \<le> length h1"
    unfolding g by simp_all
  then obtain pre where h1: "h1 = h @ pre"
    by (metis append_take_drop_id)
  from analyze_game_async_cases [OF assms g] show ?thesis
    unfolding h1 by auto
qed

lemma analyze_game_locate_trace:
  "snd (analyze_game_locate w username game_number year month h) =
     h @ [Ev_games username year month]"
  by (simp add: analyze_game_locate_def io_bind_def io_lift_def call_get_player_games_by_month_def
      split: sum.splits)

lemma analyze_game_first_query:
  assumes "analyze_game cls lib w username game_number year month h = Some (res, h')"
  shows "take (Suc (length h)) h' =
     h @ [Ev_games username
            (case year of None \<Rightarrow> fst (analyze_game_defaults cls) | Some y \<Rightarrow> y)
            (case month of None \<Rightarrow> snd (analyze_game_defaults cls) | Some m \<Rightarrow> m)]"
proof -
  let ?y = "case year of None \<Rightarrow> fst (analyze_game_defaults cls) | Some y \<Rightarrow> y"
  let ?m = "case month of None \<Rightarrow> snd (analyze_game_defaults cls) | Some m \<Rightarrow> m"
  obtain r where l: "analyze_game_locate w username game_number ?y ?m h =
      (r, h @ [Ev_games username ?y ?m])"
    using analyze_game_locate_trace [of w username game_number ?y ?m h]
    by (cases "analyze_game_locate w username game_number ?y ?m h") simp
  show ?thesis
  proof (cases r)
    case (Inl e)
    with assms l show ?thesis by (auto simp: analyze_game_def)
  next
    case (Inr located)
    with assms l obtain x where
      "analyze_game_async lib w (fst located) (fst (snd located))
         (h @ [Ev_games username ?y ?m]) = Some (x, h')"
      by (auto simp: analyze_game_def)
    from analyze_game_async_extends [OF this] show ?thesis by simp
  qed
qed


text \<open>
  Claim C10. The year and month used when the caller omits them are the ones read from the
  clock while the class body ran, at import, in the history \<open>h0\<close>. A call made in any later
  history \<open>h\<close> is the call with those values passed explicitly. \<^verbatim>\<open>get_game_number\<close> asks the
  game-history service for that month, whatever the clock reads at \<open>h\<close>, and so does
  \<^verbatim>\<open>analyze_game\<close>: whenever it returns, the first thing it did was to ask for the games of
  the month read at import.
\<close>

theorem defaults_read_at_class_definition:
  assumes "class_body lib w h0 = (cls, h1)"
  shows "get_game_number cls w username None None h =
           get_game_number cls w username
             (Some (py_str lib (PInt (dt_year (datetime_now w h0)))))
             (Some (py_str lib (PInt (dt_month (datetime_now w (h0 @ [Ev_now])))))) h \<and>
         snd (get_game_number cls w username None None h) =
           h @ [Ev_games username
                  (py_str lib (PInt (dt_year (datetime_now w h0))))
                  (py_str lib (PInt (dt_month (datetime_now w (h0 @ [Ev_now])))))] \<and>
         analyze_game cls lib w username game_number None None h =
           analyze_game cls lib w username game_number
             (Some (py_str lib (PInt (dt_year (datetime_now w (h0 @ [Ev_now, Ev_now]))))))
             (Some (py_str lib (PInt (dt_month (datetime_now w (h0 @ [Ev_now, Ev_now, Ev_now])))))) h \<and>
         (\<forall>res h'. analyze_game cls lib w username game_number None None h = Some (res, h') \<longrightarrow>
            take (Suc (length h)) h' =
              h @ [Ev_games username
                     (py_str lib (PInt (dt_year (datetime_now w (h0 @ [Ev_now, Ev_now])))))
                     (py_str lib (PInt (dt_month (datetime_now w (h0 @ [Ev_now, Ev_now, Ev_now])))))])"
proof -
  from assms have
    g: "get_game_number_defaults cls =
          (py_str lib (PInt (dt_year (datetime_now w h0))),
           py_str lib (PInt (dt_month (datetime_now w (h0 @ [Ev_now])))))" and
    a: "analyze_game_defaults cls =
          (py_str lib (PInt (dt_year (datetime_now w (h0 @ [Ev_now, Ev_now])))),
           py_str lib (PInt (dt_month (datetime_now w (h0 @ [Ev_now, Ev_now, Ev_now])))))"
    by (auto simp: class_body_def Let_def)
  have "get_game_number cls w username None None h =
           get_game_number cls w username
             (Some (py_str lib (PInt (dt_year (datetime_now w h0)))))
             (Some (py_str lib (PInt (dt_month (datetime_now w (h0 @ [Ev_now])))))) h"
    by (simp add: get_game_number_def g)
  moreover have "snd (get_game_number cls w username None None h) =
           h @ [Ev_games username
                  (py_str lib (PInt (dt_year (datetime_now w h0))))
                  (py_str lib (PInt (dt_month (datetime_now w (h0 @ [Ev_now])))))]"
    by (simp add: get_game_number_trace g)
  moreover have "analyze_game cls lib w username game_number None None h =
           analyze_game cls lib w username game_number
             (Some (py_str lib (PInt (dt_year (datetime_now w (h0 @ [Ev_now, Ev_now]))))))
             (Some (py_str lib (PInt (dt_month (datetime_now w (h0 @ [Ev_now, Ev_now, Ev_now])))))) h"
    by (simp add: analyze_game_def a)
  moreover have "take (Suc (length h)) h' =
              h @ [Ev_games username
                     (py_str lib (PInt (dt_year (datetime_now w (h0 @ [Ev_now, Ev_now])))))
                     (py_str lib (PInt (dt_month (datetime_now w (h0 @ [Ev_now, Ev_now, Ev_now])))))]"
    if "analyze_game cls lib w username game_number None None h = Some (res, h')" for res h'
    using analyze_game_first_query [OF that] by (simp add: a)
  ultimately show ?thesis by blast
qed

theorem defaults_read_at_class_definition_witness:
  "class_body (example_lib example_table) (example_world id example_games example_frames) [] =
     (example_class, [Ev_now, Ev_now, Ev_now, Ev_now]) \<and>
   py_str (example_lib example_table)
     (PInt (dt_year (datetime_now (example_world id example_games example_frames)
        [Ev_now, Ev_now, Ev_now, Ev_now]))) = ''2026'' \<and>
   py_str (example_lib example_table)
     (PInt (dt_month (datetime_now (example_world id example_games example_frames)
        [Ev_now, Ev_now, Ev_now, Ev_now]))) = ''1'' \<and>
   snd (get_game_number example_class (example_world id example_games example_frames)
          ''alice'' None None [Ev_now, Ev_now, Ev_now, Ev_now]) =
     [Ev_now, Ev_now, Ev_now, Ev_now, Ev_games ''alice'' ''2025'' ''12''] \<and>
   analyze_game example_class (example_lib example_table)
     (example_world id example_games example_frames) ''alice'' 0 None None
     [Ev_now, Ev_now, Ev_now, Ev_now] =
     Some (Inr example_summary,
           [Ev_now, Ev_now, Ev_now, Ev_now, Ev_games ''alice'' ''2025'' ''12''] @
           example_call_trace ''token-10'') \<and>
   take (Suc (length [Ev_now, Ev_now, Ev_now, Ev_now]))
     ([Ev_now, Ev_now, Ev_now, Ev_now, Ev_games ''alice'' ''2025'' ''12''] @
      example_call_trace ''token-10'') =
     [Ev_now, Ev_now, Ev_now, Ev_now, Ev_games ''alice'' ''2025'' ''12'']"
proof -
  let ?lib = "example_lib example_table"
  let ?w = "example_world id example_games example_frames"
  have body: "class_body ?lib ?w [] = (example_class, [Ev_now, Ev_now, Ev_now, Ev_now])"
    by code_simp
  have import_time: "py_str ?lib (PInt (dt_year (datetime_now ?w []))) = ''2025''"
    "py_str ?lib (PInt (dt_month (datetime_now ?w [Ev_now]))) = ''12''"
    "py_str ?lib (PInt (dt_year (datetime_now ?w [Ev_now, Ev_now]))) = ''2025''"
    "py_str ?lib (PInt (dt_month (datetime_now ?w [Ev_now, Ev_now, Ev_now]))) = ''12''"
    by code_simp+
  have call_time: "py_str ?lib (PInt (dt_year (datetime_now ?w [Ev_now, Ev_now, Ev_now, Ev_now]))) = ''2026''"
    "py_str ?lib (PInt (dt_month (datetime_now ?w [Ev_now, Ev_now, Ev_now, Ev_now]))) = ''1''"
    by code_simp+
  have run: "analyze_game example_class ?lib ?w ''alice'' 0 None None
     [Ev_now, Ev_now, Ev_now, Ev_now] =
     Some (Inr example_summary,
           [Ev_now, Ev_now, Ev_now, Ev_now, Ev_games ''alice'' ''2025'' ''12''] @
           example_call_trace ''token-10'')"
    by code_simp
  note inst = defaults_read_at_class_definition [OF body, where username = "''alice''"
      and h = "[Ev_now, Ev_now, Ev_now, Ev_now]" and game_number = 0,
      unfolded append_Nil append_Cons import_time]
  from inst have listed: "snd (get_game_number example_class ?w ''alice'' None None
      [Ev_now, Ev_now, Ev_now, Ev_now]) =
     [Ev_now, Ev_now, Ev_now, Ev_now, Ev_games ''alice'' ''2025'' ''12'']"
    by (elim conjE)
  from inst run have first: "take (Suc (length [Ev_now, Ev_now, Ev_now, Ev_now]))
     ([Ev_now, Ev_now, Ev_now, Ev_now, Ev_games ''alice'' ''2025'' ''12''] @
      example_call_trace ''token-10'') =
     [Ev_now, Ev_now, Ev_now, Ev_now, Ev_games ''alice'' ''2025'' ''12'']"
    by (elim conjE) blast
  from body call_time listed run first show ?thesis by (intro conjI)
qed

subsection \<open>Game indices\<close>

lemma list_getitem_from_end:
  "- int (length xs) \<le> i \<Longrightarrow> i < 0 \<Longrightarrow> list_getitem xs i = Inr (xs ! nat (int (length xs) + i))"
  by (simp add: list_getitem_def)

lemma analyze_game_located:
  "analyze_game_locate w username game_number
     (case year of None \<Rightarrow> fst (analyze_game_defaults cls) | Some y \<Rightarrow> y)
     (case month of None \<Rightarrow> snd (analyze_game_defaults cls) | Some m \<Rightarrow> m) h =
     (Inr (pgn, gameID, usernames), h1) \<Longrightarrow>
   analyze_game cls lib w username game_number year month h =
     map_option (\<lambda>p. (and_then (fst p) (\<lambda>game. get_tallies lib game usernames), snd p))
       (analyze_game_async lib w pgn gameID h1)"
  by (simp add: analyze_game_def)

text \<open>
  Claim C6, as amended. Against a month of \<open>N\<close> games, \<^verbatim>\<open>analyze_game\<close> with an index \<open>i\<close> such
  that \<open>i \<ge> N\<close> or \<open>i < - N\<close> raises \<^verbatim>\<open>IndexError\<close>, a \<^verbatim>\<open>LookupError\<close>, right after the games
  were fetched. An index \<open>i\<close> with \<open>- N \<le> i < 0\<close> is not refused: Python counts it from the
  end, and the call resolves to the game at position \<open>N + i\<close>. When that game carries a
  \<^verbatim>\<open>pgn\<close>, a URL with a digit and both user names, the lookup returns them and the analysis
  runs on them; the call is the call at index \<open>N + i\<close>.
\<close>

theorem analyze_game_index_out_of_range:
  assumes "get_player_games_by_month w h username
             (case year of None \<Rightarrow> fst (analyze_game_defaults cls) | Some y \<Rightarrow> y)
             (case month of None \<Rightarrow> snd (analyze_game_defaults cls) | Some m \<Rightarrow> m) = Inr r"
    and "getitem_str r ''games'' = Inr (PList games)"
  shows "(int (length games) \<le> game_number \<or> game_number < - int (length games) \<longrightarrow>
            analyze_game cls lib w username game_number year month h =
              Some (Inl IndexError,
                    h @ [Ev_games username
                           (case year of None \<Rightarrow> fst (analyze_game_defaults cls) | Some y \<Rightarrow> y)
                           (case month of None \<Rightarrow> snd (analyze_game_defaults cls) | Some m \<Rightarrow> m)])) \<and>
         (- int (length games) \<le> game_number \<and> game_number < 0 \<longrightarrow>
            analyze_game cls lib w username game_number year month h =
            analyze_game cls lib w username (int (length games) + game_number) year month h) \<and>
         (- int (length games) \<le> game_number \<and> game_number < 0 \<longrightarrow>
            (\<forall>pgn url gameID white black.
               getitem_str (games ! nat (int (length games) + game_number)) ''pgn'' = Inr pgn \<longrightarrow>
               getitem_str (games ! nat (int (length games) + game_number)) ''url'' = Inr (PStr url) \<longrightarrow>
               re_search_digit_rest url = Some gameID \<longrightarrow>
               getpath (games ! nat (int (length games) + game_number)) [''white'', ''username''] =
                 Inr white \<longrightarrow>
               getpath (games ! nat (int (length games) + game_number)) [''black'', ''username''] =
                 Inr black \<longrightarrow>
               analyze_game_locate w username game_number
                 (case year of None \<Rightarrow> fst (analyze_game_defaults cls) | Some y \<Rightarrow> y)
                 (case month of None \<Rightarrow> snd (analyze_game_defaults cls) | Some m \<Rightarrow> m) h =
                 (Inr (pgn, gameID, PDict [(''white'', white), (''black'', black)]),
                  h @ [Ev_games username
                         (case year of None \<Rightarrow> fst (analyze_game_defaults cls) | Some y \<Rightarrow> y)
                         (case month of None \<Rightarrow> snd (analyze_game_defaults cls) | Some m \<Rightarrow> m)]) \<and>
               analyze_game cls lib w username game_number year month h =
                 map_option
                   (\<lambda>p. (and_then (fst p)
                            (\<lambda>game. get_tallies lib game
                                      (PDict [(''white'', white), (''black'', black)])), snd p))
                   (analyze_game_async lib w pgn gameID
                      (h @ [Ev_games username
                              (case year of None \<Rightarrow> fst (analyze_game_defaults cls) | Some y \<Rightarrow> y)
                              (case month of None \<Rightarrow> snd (analyze_game_defaults cls) | Some m \<Rightarrow> m)]))))"
proof -
  let ?y = "case year of None \<Rightarrow> fst (analyze_game_defaults cls) | Some y \<Rightarrow> y"
  let ?m = "case month of None \<Rightarrow> snd (analyze_game_defaults cls) | Some m \<Rightarrow> m"
  let ?g = "games ! nat (int (length games) + game_number)"
  note fetched = analyze_game_locate_fetched [OF assms]
  have "analyze_game_locate w username game_number ?y ?m h =
        (Inl IndexError, h @ [Ev_games username ?y ?m])"
    if "int (length games) \<le> game_number \<or> game_number < - int (length games)"
    unfolding fetched
    by (simp only: getitem_int.simps list_getitem_out_of_range [OF that] and_then_simps)
  then have outside: "analyze_game cls lib w username game_number year month h =
      Some (Inl IndexError, h @ [Ev_games username ?y ?m])"
    if "int (length games) \<le> game_number \<or> game_number < - int (length games)"
    using that by (intro analyze_game_located_failure) simp
  have "analyze_game_locate w username game_number ?y ?m h =
        analyze_game_locate w username (int (length games) + game_number) ?y ?m h"
    if "- int (length games) \<le> game_number" "game_number < 0"
    unfolding fetched
    by (simp only: getitem_int.simps list_getitem_negative [OF that])
  then have negative: "analyze_game cls lib w username game_number year month h =
      analyze_game cls lib w username (int (length games) + game_number) year month h"
    if "- int (length games) \<le> game_number" "game_number < 0"
    using that by (simp add: analyze_game_def)
  have resolved: "analyze_game_locate w username game_number ?y ?m h =
        (Inr (pgn, gameID, PDict [(''white'', white), (''black'', black)]),
         h @ [Ev_games username ?y ?m]) \<and>
      analyze_game cls lib w username game_number year month h =
        map_option
          (\<lambda>p. (and_then (fst p)
                   (\<lambda>game. get_tallies lib game (PDict [(''white'', white), (''black'', black)])),
                 snd p))
          (analyze_game_async lib w pgn gameID (h @ [Ev_games username ?y ?m]))"
    if i: "- int (length games) \<le> game_number" "game_number < 0"
      and g: "getitem_str ?g ''pgn'' = Inr pgn" "getitem_str ?g ''url'' = Inr (PStr url)"
        "re_search_digit_rest url = Some gameID"
        "getpath ?g [''white'', ''username''] = Inr white"
        "getpath ?g [''black'', ''username''] = Inr black"
    for pgn url gameID white black
  proof -
    from g(3) have id: "re_search_group (PStr url) = Inr gameID"
      by (simp add: re_search_group_def)
    have names: "for_each [''white'', ''black'']
                 (\<lambda>color usernames.
                    and_then (getpath ?g [color, ''username''])
                      (\<lambda>name. Inr (AList.update color name usernames))) [] =
        Inr [(''white'', white), (''black'', black)]"
      by (simp only: for_each.simps g(4,5) and_then_simps sum.case) simp
    have "fst (analyze_game_locate w username game_number ?y ?m h) =
        Inr (pgn, gameID, PDict [(''white'', white), (''black'', black)])"
      unfolding analyze_game_locate_at [OF assms list_getitem_from_end [OF i]]
      by (simp only: g(1,2) id names and_then_simps)
    with analyze_game_locate_trace [of w username game_number ?y ?m h]
    have located: "analyze_game_locate w username game_number ?y ?m h =
        (Inr (pgn, gameID, PDict [(''white'', white), (''black'', black)]),
         h @ [Ev_games username ?y ?m])"
      by (cases "analyze_game_locate w username game_number ?y ?m h") simp
    from located analyze_game_located [OF located] show ?thesis by (intro conjI)
  qed
  from outside negative resolved show ?thesis by blast
qed

theorem analyze_game_index_out_of_range_witness:
  "analyze_game example_class (example_lib example_table)
     (example_world id example_games example_frames) ''alice'' 3 None None [] =
     Some (Inl IndexError, [Ev_games ''alice'' ''2025'' ''12'']) \<and>
   analyze_game example_class (example_lib example_table)
     (example_world id example_games example_frames) ''alice'' (- 1) None None [] =
   analyze_game example_class (example_lib example_table)
     (example_world id example_games example_frames) ''alice'' 2 None None [] \<and>
   analyze_game_locate (example_world id example_games example_frames)
     ''alice'' (- 1) ''2025'' ''12'' [] =
     (Inr (PStr ''1. e4 e5 2. Nf3 Nc6 3. Bc4 Bc5'', ''224466'',
           PDict [(''white'', PStr ''alice''), (''black'', PStr ''dave'')]),
      [Ev_games ''alice'' ''2025'' ''12'']) \<and>
   example_games ! nat (int (length example_games) + (- 1)) =
     example_game ''https://www.chess.com/game/daily/224466'' ''alice'' ''dave''"
proof -
  let ?w = "example_world id example_games example_frames"
  let ?g = "example_game ''https://www.chess.com/game/daily/224466'' ''alice'' ''dave''"
  have fetch: "get_player_games_by_month ?w [] ''alice''
      (case None of None \<Rightarrow> fst (analyze_game_defaults example_class) | Some y \<Rightarrow> y)
      (case None of None \<Rightarrow> snd (analyze_game_defaults example_class) | Some m \<Rightarrow> m) =
      Inr (PDict [(''games'', PList example_games)])"
    by (simp add: example_world_def)
  have games: "getitem_str (PDict [(''games'', PList example_games)]) ''games'' =
      Inr (PList example_games)"
    by simp
  have len: "length example_games = 3"
    by (simp add: example_games_def)
  have last: "example_games ! nat (int (length example_games) + (- 1)) = ?g"
    by (simp add: example_games_def)
  have rec: "getitem_str ?g ''pgn'' = Inr (PStr ''1. e4 e5 2. Nf3 Nc6 3. Bc4 Bc5'')"
    "getitem_str ?g ''url'' = Inr (PStr ''https://www.chess.com/game/daily/224466'')"
    "getpath ?g [''white'', ''username''] = Inr (PStr ''alice'')"
    "getpath ?g [''black'', ''username''] = Inr (PStr ''dave'')"
    by (simp_all add: example_game_def and_then_simps)
  have id: "re_search_digit_rest ''https://www.chess.com/game/daily/224466'' = Some ''224466''"
    by code_simp
  have range: "- int (length example_games) \<le> - 1 \<and> (- 1 :: int) < 0"
    "int (length example_games) \<le> 3 \<or> (3 :: int) < - int (length example_games)"
    by (simp_all add: len)
  note out = analyze_game_index_out_of_range [OF fetch games, where game_number = 3
      and lib = "example_lib example_table"]
  note neg = analyze_game_index_out_of_range [OF fetch games, where game_number = "- 1"
      and lib = "example_lib example_table", unfolded last]
  from out range(2) have a: "analyze_game example_class (example_lib example_table) ?w
       ''alice'' 3 None None [] =
     Some (Inl IndexError, [Ev_games ''alice'' ''2025'' ''12''])"
    by (simp add: example_class_def)
  from neg range(1) have b: "analyze_game example_class (example_lib example_table) ?w
       ''alice'' (- 1) None None [] =
     analyze_game example_class (example_lib example_table) ?w ''alice'' 2 None None []"
    by (simp add: len)
  from neg range(1) rec id have c: "analyze_game_locate ?w ''alice'' (- 1) ''2025'' ''12'' [] =
     (Inr (PStr ''1. e4 e5 2. Nf3 Nc6 3. Bc4 Bc5'', ''224466'',
           PDict [(''white'', PStr ''alice''), (''black'', PStr ''dave'')]),
      [Ev_games ''alice'' ''2025'' ''12''])"
    by (simp add: example_class_def)
  from a b c last show ?thesis by (intro conjI)
qed

end
